theory Spec2Isabelle
  imports Complex_Main
begin

section \<open>JavaScript values and the string primitives the report generators use\<close>

text \<open>
  The report generators are React components written in JavaScript. Numbers are modelled
  as exact reals together with the three non-finite doubles (rounding of doubles is not
  modelled); strings are lists of 8-bit characters, one per code unit. A property of a
  machine or bearing record that is absent reads as \<open>JUndefined\<close>.
\<close>

datatype jsnum = Fin real | NaN | PosInfinity | NegInfinity

datatype jsval = JUndefined | JNull | JBool bool | JNum jsnum | JStr string

datatype error = TypeError | JsPDFError

text \<open>Truthiness, as used by \<open>||\<close>, \<open>&&\<close> and \<open>if\<close>.\<close>

fun truthy :: "jsval \<Rightarrow> bool" where
  "truthy JUndefined = False"
| "truthy JNull = False"
| "truthy (JBool b) = b"
| "truthy (JNum (Fin x)) = (x \<noteq> 0)"
| "truthy (JNum NaN) = False"
| "truthy (JNum PosInfinity) = True"
| "truthy (JNum NegInfinity) = True"
| "truthy (JStr s) = (s \<noteq> [])"

text \<open>\<open>a || b\<close>\<close>

definition js_or :: "jsval \<Rightarrow> jsval \<Rightarrow> jsval" where
  "js_or a b = (if truthy a then a else b)"

text \<open>Sequencing of computations that may throw.\<close>

definition bind :: "error + 'a \<Rightarrow> ('a \<Rightarrow> error + 'b) \<Rightarrow> error + 'b" where
  "bind m f = (case m of Inl e \<Rightarrow> Inl e | Inr x \<Rightarrow> f x)"

definition is_upper :: "char \<Rightarrow> bool" where
  "is_upper c = (65 \<le> (of_char c :: nat) \<and> (of_char c :: nat) \<le> 90)"

definition is_lower :: "char \<Rightarrow> bool" where
  "is_lower c = (97 \<le> (of_char c :: nat) \<and> (of_char c :: nat) \<le> 122)"

definition is_digit :: "char \<Rightarrow> bool" where
  "is_digit c = (48 \<le> (of_char c :: nat) \<and> (of_char c :: nat) \<le> 57)"

definition toLowerCase_char :: "char \<Rightarrow> char" where
  "toLowerCase_char c = (if is_upper c then char_of ((of_char c :: nat) + 32) else c)"

definition toUpperCase_char :: "char \<Rightarrow> char" where
  "toUpperCase_char c = (if is_lower c then char_of ((of_char c :: nat) - 32) else c)"

text \<open>
  \<open>v.toLowerCase()\<close>: defined on strings only; on any other value the method is missing
  and the call throws a TypeError. (\<open>toUpperCase\<close> is only applied to a string that
  \<open>toLowerCase\<close> returned, as \<open>map toUpperCase_char\<close>.)
\<close>

fun toLowerCase :: "jsval \<Rightarrow> error + string" where
  "toLowerCase (JStr s) = Inr (map toLowerCase_char s)"
| "toLowerCase _ = Inl TypeError"

text \<open>\<open>v.substring(0, n)\<close>\<close>

fun substring0 :: "jsval \<Rightarrow> nat \<Rightarrow> error + string" where
  "substring0 (JStr s) n = Inr (take n s)"
| "substring0 _ n = Inl TypeError"

text \<open>
  \<open>Array.prototype.forEach\<close>: the callback receives the index and the element, in order;
  \<open>'s\<close> holds the variables of the enclosing function that the callback assigns, and
  the result collects what the callbacks produce. An exception thrown by a callback ends
  the loop.
\<close>

fun forEach ::
  "(nat \<Rightarrow> 'a \<Rightarrow> 's \<Rightarrow> error + ('o list \<times> 's)) \<Rightarrow> nat \<Rightarrow> 'a list \<Rightarrow> 's \<Rightarrow> error + ('o list \<times> 's)"
  where
  "forEach f i [] s = Inr ([], s)"
| "forEach f i (x # xs) s =
     bind (f i x s) (\<lambda>(out, s').
       bind (forEach f (Suc i) xs s') (\<lambda>(out', s''). Inr (out @ out', s'')))"

text \<open>Decimal rendering of a non-negative integer inside a template literal.\<close>

fun string_of_nat :: "nat \<Rightarrow> string" where
  "string_of_nat n =
     (if n < 10 then [char_of (48 + n)]
      else string_of_nat (n div 10) @ [char_of (48 + n mod 10)])"

declare string_of_nat.simps [simp del]

section \<open>Severity classifier\<close>

datatype severity = A | B | C | D

record sev_info =
  bg :: "nat list"
  sev_text :: string
  level :: nat

text \<open>The table \<open>SEVERITY_COLORS\<close>.\<close>

fun SEVERITY_COLORS :: "severity \<Rightarrow> sev_info" where
  "SEVERITY_COLORS A = \<lparr>bg = [16, 185, 129], sev_text = ''Normal'', level = 1\<rparr>"
| "SEVERITY_COLORS B = \<lparr>bg = [6, 182, 212], sev_text = ''Satisfactory'', level = 2\<rparr>"
| "SEVERITY_COLORS C = \<lparr>bg = [245, 158, 11], sev_text = ''Alert'', level = 3\<rparr>"
| "SEVERITY_COLORS D = \<lparr>bg = [239, 68, 68], sev_text = ''Unacceptable'', level = 4\<rparr>"

text \<open>
  \<open>getStatusSeverity\<close>: \<open>(status || '').toLowerCase()\<close> followed by the chain of
  comparisons.
\<close>

definition getStatusSeverity :: "jsval \<Rightarrow> error + severity" where
  "getStatusSeverity status =
     bind (toLowerCase (js_or status (JStr []))) (\<lambda>s.
       if s = ''normal'' then Inr A
       else if s = ''satisfactory'' then Inr B
       else if s = ''alert'' then Inr C
       else if s = ''unacceptable'' \<or> s = ''unsatisfactory'' then Inr D
       else Inr A)"

text \<open>
  \<open>getVelocityColor\<close>. The source first computes \<open>v = parseFloat(vel)\<close> from the cell
  text; \<open>parseFloat\<close> belongs to the runtime, so the model takes \<open>v\<close>, and every caller
  applies the runtime's \<open>parseFloat\<close> to the text it passes. A comparison with NaN is false.
\<close>

fun js_gt :: "jsnum \<Rightarrow> real \<Rightarrow> bool" where
  "js_gt (Fin x) c = (x > c)"
| "js_gt NaN c = False"
| "js_gt PosInfinity c = True"
| "js_gt NegInfinity c = False"

definition getVelocityColor :: "jsnum \<Rightarrow> nat list" where
  "getVelocityColor v =
     (if js_gt v 7.1 then [239, 68, 68]
      else if js_gt v 4.5 then [251, 146, 60]
      else if js_gt v 2.8 then [245, 158, 11]
      else [16, 185, 129])"

text \<open>
  A string \<open>s\<close> is a spelling of the lower-case token \<open>t\<close> in some letter case when it
  has the letters of \<open>t\<close>, each one either as it is or as its capital.
\<close>

definition spelling_of :: "string \<Rightarrow> string \<Rightarrow> bool" where
  "spelling_of t s = list_all2 (\<lambda>c d. c = d \<or> c = toUpperCase_char d) s t"

section \<open>The drawing surface\<close>

text \<open>
  A report is the sequence of calls made on the jsPDF object, in order. \<open>AddPage\<close> starts
  a new page; everything before the first \<open>AddPage\<close> is on page 1.
\<close>

datatype text_opt = NoOpt | Align string | Angle nat

datatype op =
    SetFillColor "nat list"
  | SetDrawColor "nat list"
  | SetTextColor "nat list"
  | SetLineWidth real
  | SetFontSize nat
  | SetFont string string
  | Rect real real real real string
  | Line real real real real
  | Text string real real text_opt
  | AddImage string string real real real real
  | AddPage

text \<open>
  \<open>pdf.text(v, x, y, opt)\<close>: jsPDF accepts a string and throws on a value that is neither
  a string nor an array of strings.
\<close>

fun pdf_text :: "jsval \<Rightarrow> real \<Rightarrow> real \<Rightarrow> text_opt \<Rightarrow> error + op list" where
  "pdf_text (JStr s) x y opt = Inr [Text s x y opt]"
| "pdf_text _ x y opt = Inl JsPDFError"

text \<open>
  What the runtime and the page format supply to one report run: the successive values of
  \<open>Math.random()\<close> (the k-th call of the run returns \<open>random k\<close>), \<open>Number.toFixed\<close>,
  \<open>parseFloat\<close>, the conversion of a number to a string, the two renderings of the
  current date (taken as the same during one run), the page size of the A4 document, and
  whether jsPDF accepts the logo image (a failure of \<open>addImage\<close> is caught inside
  \<open>drawPageHeader\<close> and only logged).
\<close>

record js_env =
  random :: "nat \<Rightarrow> real"
  toFixed :: "real \<Rightarrow> nat \<Rightarrow> string"
  parseFloat :: "string \<Rightarrow> jsnum"
  numberToString :: "jsnum \<Rightarrow> string"
  toLocaleDateString :: string
  toISOString :: string
  pageWidth :: real
  pageHeight :: real
  addImage_ok :: bool

text \<open>The conversion of a value to a string inside a template literal.\<close>

fun js_toString :: "js_env \<Rightarrow> jsval \<Rightarrow> string" where
  "js_toString env JUndefined = ''undefined''"
| "js_toString env JNull = ''null''"
| "js_toString env (JBool b) = (if b then ''true'' else ''false'')"
| "js_toString env (JNum n) = numberToString env n"
| "js_toString env (JStr s) = s"

text \<open>\<open>parseFloat(v)\<close> converts its argument to a string first.\<close>

definition js_parseFloat :: "js_env \<Rightarrow> jsval \<Rightarrow> jsnum" where
  "js_parseFloat env v = parseFloat env (js_toString env v)"

text \<open>\<open>new Date().toISOString().split('T')[0]\<close>\<close>

definition isoDate :: "js_env \<Rightarrow> string" where
  "isoDate env = takeWhile (\<lambda>c. c \<noteq> CHR ''T'') (toISOString env)"

text \<open>\<open>drawPageHeader(pdf, logo, machineName, pageWidth, margin)\<close>\<close>

definition drawPageHeader ::
  "js_env \<Rightarrow> string option \<Rightarrow> jsval \<Rightarrow> real \<Rightarrow> real \<Rightarrow> error + op list" where
  "drawPageHeader env logo machineName pw margin =
     bind (if truthy machineName
           then bind (pdf_text machineName (pw / 2) 14 (Align ''center''))
                  (\<lambda>t. Inr (SetFontSize 10 # t))
           else Inr []) (\<lambda>name_ops.
     Inr ([SetFillColor [30, 41, 59], Rect 0 0 pw 22 ''F'',
           SetTextColor [255, 255, 255], SetFontSize 14, SetFont ''helvetica'' ''bold'',
           Text ''AAMS'' margin 14 NoOpt]
          @ name_ops
          @ (case logo of
               None \<Rightarrow> []
             | Some l \<Rightarrow> if addImage_ok env
                         then [AddImage l ''JPEG'' (pw - margin - 25) 2 23 18] else [])))"

text \<open>\<open>drawPageFooter(pdf, pageNum, pageWidth, pageHeight, margin)\<close>\<close>

definition drawPageFooter :: "nat \<Rightarrow> real \<Rightarrow> real \<Rightarrow> real \<Rightarrow> op list" where
  "drawPageFooter pageNum pw ph margin =
     [SetFontSize 8, SetTextColor [79, 70, 229],
      Text ''http://app.aams.io'' margin (ph - 8) NoOpt,
      SetTextColor [100, 100, 100],
      Text (''Page: '' @ string_of_nat pageNum) (pw - margin) (ph - 8) (Align ''right'')]"

section \<open>Spectrum chart renderer\<close>

record point =
  freq :: real
  amplitude :: real

text \<open>
  \<open>drawFFTChart(pdf, fftData, x, y, width, height, title, color)\<close>, the same text in both
  report generators. It is given here in three parts, in the order of the source: the
  panel, border, title and grid; the polyline; the labels. Every caller passes a template
  literal as \<open>title\<close> and an entry of \<open>chartColors\<close> as \<open>color\<close>, so the title is a
  string and the colour a triplet.
\<close>

definition chartFrame :: "real \<Rightarrow> real \<Rightarrow> real \<Rightarrow> real \<Rightarrow> string \<Rightarrow> op list" where
  "chartFrame x y width height title =
     [SetFillColor [250, 250, 250], Rect x y width height ''F'',
      SetDrawColor [200, 200, 200], SetLineWidth 0.3, Rect x y width height ''S'',
      SetFontSize 9, SetFont ''helvetica'' ''bold'', SetTextColor [30, 41, 59],
      Text title (x + 5) (y - 3) NoOpt,
      SetDrawColor [230, 230, 230], SetLineWidth 0.1]
     @ map (\<lambda>i. let gridY = y + (height / 5) * real i in Line x gridY (x + width) gridY) [1..<5]
     @ map (\<lambda>i. let gridX = x + (width / 10) * real i in Line gridX y gridX (y + height)) [1..<10]"

text \<open>
  The branch \<open>if (fftData && fftData.length > 0)\<close>; \<open>None\<close> is a series that is
  \<open>undefined\<close> or \<open>null\<close>. \<open>Math.max(...) || 1\<close> replaces a maximum of 0 by 1.
\<close>

definition maxAmplitude_of :: "point list \<Rightarrow> real" where
  "maxAmplitude_of fftData =
     (let m = fold max (map amplitude (tl fftData)) (amplitude (hd fftData))
      in if m = 0 then 1 else m)"

definition chartPolyline ::
  "point list option \<Rightarrow> real \<Rightarrow> real \<Rightarrow> real \<Rightarrow> real \<Rightarrow> nat list \<Rightarrow> op list" where
  "chartPolyline fftData x y width height color =
     (case fftData of
        None \<Rightarrow> []
      | Some ps \<Rightarrow>
          if length ps > 0 then
            (let maxAmplitude = maxAmplitude_of ps;
                 scaleX = width / real (length ps);
                 scaleY = (height - 10) / maxAmplitude
             in [SetDrawColor color, SetLineWidth 0.5]
                @ map (\<lambda>i.
                    let x1 = x + (real i - 1) * scaleX;
                        y1 = y + height - 5 - amplitude (ps ! (i - 1)) * scaleY;
                        x2 = x + real i * scaleX;
                        y2 = y + height - 5 - amplitude (ps ! i) * scaleY
                    in Line x1 y1 x2 y2) [1..<length ps])
          else [])"

definition chartLabels :: "real \<Rightarrow> real \<Rightarrow> real \<Rightarrow> real \<Rightarrow> op list" where
  "chartLabels x y width height =
     [SetFontSize 7, SetTextColor [100, 100, 100],
      Text ''Frequency (Hz)'' (x + width / 2) (y + height + 5) (Align ''center''),
      Text ''Vel'' (x - 3) (y + height / 2) (Angle 90),
      SetFontSize 6,
      Text ''0'' x (y + height + 3) NoOpt,
      Text ''500'' (x + width / 2) (y + height + 3) (Align ''center''),
      Text ''1000'' (x + width) (y + height + 3) (Align ''right'')]"

definition drawFFTChart ::
  "point list option \<Rightarrow> real \<Rightarrow> real \<Rightarrow> real \<Rightarrow> real \<Rightarrow> string \<Rightarrow> nat list \<Rightarrow> op list" where
  "drawFFTChart fftData x y width height title color =
     chartFrame x y width height title
     @ chartPolyline fftData x y width height color
     @ chartLabels x y width height"

text \<open>
  The on-screen chart of \<open>FFTChartModal\<close> (its own \<open>drawFFTChart\<close>, on a canvas): the
  positions of the points of a non-empty series, inside the padded chart area.
\<close>

record modal_point =
  frequency :: real
  mp_amplitude :: real

definition modalPoints ::
  "modal_point list \<Rightarrow> real \<Rightarrow> real \<Rightarrow> real \<Rightarrow> real \<Rightarrow> (real \<times> real) list" where
  "modalPoints data padLeft padTop chartWidth chartHeight =
     (let maxFreq = fold max (map frequency data) 1000;
          maxAmplitude = fold max (map mp_amplitude data) 0.5
      in map (\<lambda>p. (padLeft + (frequency p / maxFreq) * chartWidth,
                    padTop + chartHeight - (mp_amplitude p / maxAmplitude) * chartHeight)) data)"

text \<open>
  The placement the specification gives for a point, for comparison with the renderers.
\<close>

definition spec_screenX :: "real \<Rightarrow> real \<Rightarrow> real \<Rightarrow> real \<Rightarrow> real" where
  "spec_screenX originX width maxFreq f = originX + (f / maxFreq) * width"

definition spec_screenY :: "real \<Rightarrow> real \<Rightarrow> real \<Rightarrow> real \<Rightarrow> real" where
  "spec_screenY originY height maxAmplitude a = originY + height - (a / maxAmplitude) * height"

definition is_Line :: "op \<Rightarrow> bool" where
  "is_Line c = (case c of Line x1 y1 x2 y2 \<Rightarrow> True | _ \<Rightarrow> False)"

definition is_horizontal :: "op \<Rightarrow> bool" where
  "is_horizontal c = (case c of Line x1 y1 x2 y2 \<Rightarrow> y1 = y2 | _ \<Rightarrow> False)"

definition is_vertical :: "op \<Rightarrow> bool" where
  "is_vertical c = (case c of Line x1 y1 x2 y2 \<Rightarrow> x1 = x2 | _ \<Rightarrow> False)"

section \<open>Synthetic spectrum data\<close>

text \<open>
  \<open>generateFFTData(numPoints, amplitudeMultiplier)\<close> of ChartsSection.jsx. The loop makes one
  call of \<open>Math.random()\<close> per point; \<open>rnd\<close> is the number of calls made before.
\<close>

definition generateFFTData :: "(nat \<Rightarrow> real) \<Rightarrow> nat \<Rightarrow> nat \<Rightarrow> real \<Rightarrow> point list" where
  "generateFFTData rand rnd numPoints amplitudeMultiplier =
     map (\<lambda>i.
       let f = (real i / real numPoints) * 1000;
           a0 = rand (rnd + i) * 0.02 * amplitudeMultiplier;
           a1 = (if \<bar>f - 50\<bar> < 5 then a0 + 0.3 * amplitudeMultiplier else a0);
           a2 = (if \<bar>f - 100\<bar> < 5 then a1 + 0.15 * amplitudeMultiplier else a1);
           a3 = (if \<bar>f - 150\<bar> < 5 then a2 + 0.08 * amplitudeMultiplier else a2);
           a4 = (if \<bar>f - 180\<bar> < 10 then a3 + 0.05 * amplitudeMultiplier else a3);
           a5 = (if \<bar>f - 360\<bar> < 10 then a4 + 0.03 * amplitudeMultiplier else a4)
       in \<lparr>freq = f, amplitude = a5\<rparr>) [0..<numPoints]"

text \<open>
  \<open>generateFFTData\<close> of the bearing report generator: the same loop without the last
  peak.
\<close>

definition generateFFTData_bearing :: "(nat \<Rightarrow> real) \<Rightarrow> nat \<Rightarrow> nat \<Rightarrow> real \<Rightarrow> point list" where
  "generateFFTData_bearing rand rnd numPoints amplitudeMultiplier =
     map (\<lambda>i.
       let f = (real i / real numPoints) * 1000;
           a0 = rand (rnd + i) * 0.02 * amplitudeMultiplier;
           a1 = (if \<bar>f - 50\<bar> < 5 then a0 + 0.3 * amplitudeMultiplier else a0);
           a2 = (if \<bar>f - 100\<bar> < 5 then a1 + 0.15 * amplitudeMultiplier else a1);
           a3 = (if \<bar>f - 150\<bar> < 5 then a2 + 0.08 * amplitudeMultiplier else a2);
           a4 = (if \<bar>f - 180\<bar> < 10 then a3 + 0.05 * amplitudeMultiplier else a3)
       in \<lparr>freq = f, amplitude = a4\<rparr>) [0..<numPoints]"

section \<open>The bearing report generator\<close>

text \<open>
  The component \<open>BearingReportGenerator\<close> receives \<open>machine\<close>, \<open>bearing\<close>,
  \<open>bearings\<close> (default \<open>[]\<close>) and \<open>isSingleBearing\<close> (default \<open>false\<close>). The records
  hold the properties the generator reads; \<open>m_id\<close> and \<open>b_id\<close> are the property \<open>_id\<close>.
\<close>

record machine =
  m_name :: jsval
  m_machineName :: jsval
  m_statusName :: jsval
  m_status :: jsval
  m_machineId :: jsval
  m_id :: jsval
  m_customerId :: jsval
  m_areaId :: jsval
  m_type :: jsval
  m_date :: jsval

record bearing =
  b_id :: jsval
  b_bearingId :: jsval
  b_statusName :: jsval
  b_status :: jsval

datatype axis = H_axis | V_axis | A_axis

fun axis_letter :: "axis \<Rightarrow> string" where
  "axis_letter H_axis = ''H''"
| "axis_letter V_axis = ''V''"
| "axis_letter A_axis = ''A''"

text \<open>The table \<open>chartColors\<close>.\<close>

fun chartColors :: "axis \<Rightarrow> nat list" where
  "chartColors H_axis = [59, 130, 246]"
| "chartColors V_axis = [16, 185, 129]"
| "chartColors A_axis = [245, 158, 11]"

text \<open>What a run of \<open>generatePDFReport\<close> leaves behind.\<close>

datatype outcome =
    NoMachine
  | Failed error
  | Saved string "op list"

text \<open>\<open>machine.name || machine.machineName || 'Unknown Machine'\<close>\<close>

definition machineName_of :: "machine \<Rightarrow> jsval" where
  "machineName_of m = js_or (js_or (m_name m) (m_machineName m)) (JStr ''Unknown Machine'')"

text \<open>\<open>(machine.statusName || machine.status || 'normal').toLowerCase()\<close>\<close>

definition machineStatus :: "machine \<Rightarrow> error + string" where
  "machineStatus m = toLowerCase (js_or (js_or (m_statusName m) (m_status m)) (JStr ''normal''))"

text \<open>\<open>(b.statusName || b.status || 'satisfactory').toLowerCase()\<close>, in the table and in the gallery.\<close>

definition bearingStatus :: "bearing \<Rightarrow> error + string" where
  "bearingStatus b = toLowerCase (js_or (js_or (b_statusName b) (b_status b)) (JStr ''satisfactory''))"

text \<open>\<open>isSingleBearing && bearing ? [bearing] : bearings\<close>\<close>

definition bearingsToReport :: "bool \<Rightarrow> bearing option \<Rightarrow> bearing list \<Rightarrow> bearing list" where
  "bearingsToReport isSingleBearing brg bearings =
     (case brg of Some b \<Rightarrow> if isSingleBearing then [b] else bearings | None \<Rightarrow> bearings)"

text \<open>The title and the status row of page 1.\<close>

definition titleAndStatus ::
  "js_env \<Rightarrow> bool \<Rightarrow> string \<Rightarrow> sev_info \<Rightarrow> real \<Rightarrow> op list" where
  "titleAndStatus env isSingleBearing status statusColor margin =
     (let yPos = 26 :: real in
      [SetTextColor [30, 41, 59], SetFontSize 14, SetFont ''helvetica'' ''bold'',
       Text (if isSingleBearing then ''BEARING ANALYSIS REPORT'' else ''MACHINE & BEARING REPORT'')
         (pageWidth env / 2) yPos (Align ''center'')]
      @ (let yPos = yPos + 10 in
      [SetFontSize 10, SetFont ''helvetica'' ''normal'', SetTextColor [30, 41, 59],
       Text ''Status: '' margin yPos NoOpt,
       SetTextColor (bg statusColor), SetFont ''helvetica'' ''bold'',
       Text (map toUpperCase_char status) (margin + 15) yPos NoOpt,
       SetTextColor [100, 100, 100], SetFont ''helvetica'' ''normal'',
       Text (''Report Date: '' @ toLocaleDateString env) (pageWidth env - margin) yPos
         (Align ''right'')]))"

text \<open>The array \<open>details\<close>.\<close>

definition details :: "machine \<Rightarrow> (string \<times> jsval) list" where
  "details m =
     [(''Machine Name'', machineName_of m),
      (''Machine ID'', js_or (js_or (m_machineId m) (m_id m)) (JStr ''N/A'')),
      (''Customer ID'', js_or (m_customerId m) (JStr ''N/A'')),
      (''Area ID'', js_or (m_areaId m) (JStr ''N/A'')),
      (''Type'', js_or (m_type m) (JStr ''OFFLINE'')),
      (''Standard'', JStr ''ISO 10816-3'')]"

text \<open>The machine details box and \<open>details.forEach\<close>; \<open>yPos\<close> is 46 here.\<close>

definition machineDetails :: "js_env \<Rightarrow> machine \<Rightarrow> real \<Rightarrow> real \<Rightarrow> error + op list" where
  "machineDetails env m margin contentWidth =
     (let yPos = 46 :: real; colWidth = contentWidth / 2 in
      bind (forEach (\<lambda>i detail (u :: unit).
              let col = i mod 2; row = i div 2;
                  x = margin + real col * colWidth + 5;
                  y = yPos + 8 + real row * 8
              in bind (pdf_text (snd detail) (x + 30) y NoOpt) (\<lambda>t.
                   Inr ([SetTextColor [100, 100, 100], SetFontSize 8, SetFont ''helvetica'' ''normal'',
                         Text (fst detail @ '':'') x y NoOpt,
                         SetTextColor [30, 41, 59], SetFont ''helvetica'' ''bold''] @ t, u)))
              0 (details m) ()) (\<lambda>(rows, u).
      Inr ([SetFillColor [248, 250, 252], Rect margin yPos contentWidth 30 ''F'',
            SetDrawColor [226, 232, 240], Rect margin yPos contentWidth 30 ''S''] @ rows)))"

text \<open>The heading and the header row of the bearing table; \<open>yPos\<close> is 84, then 90.\<close>

definition tableHeaders :: "string list" where
  "tableHeaders = [''Bearing ID'', ''Status'', ''Vel (mm/s)'', ''Acc (g)'', ''Temp (C)'']"

definition colWidths :: "real list" where
  "colWidths = [60, 30, 30, 30, 30]"

definition rowHeight :: real where
  "rowHeight = 7"

definition bearingTableHeader :: "nat \<Rightarrow> real \<Rightarrow> error + op list" where
  "bearingTableHeader n margin =
     (let yPos = 84 :: real in
      bind (let yPos = yPos + 6 in
            forEach (\<lambda>i w tableX.
              Inr ([Rect tableX yPos w rowHeight ''F'', SetTextColor [255, 255, 255],
                    SetFontSize 7, SetFont ''helvetica'' ''bold'',
                    Text (tableHeaders ! i) (tableX + 2) (yPos + 5) NoOpt], tableX + w))
              0 colWidths margin) (\<lambda>(cells, tableX).
      Inr ([SetFontSize 11, SetFont ''helvetica'' ''bold'', SetTextColor [30, 41, 59],
            Text (''Bearings ('' @ string_of_nat n @ '')'') margin yPos NoOpt,
            SetFillColor [30, 41, 59]] @ cells)))"

text \<open>
  One pass of \<open>bearingsToReport.forEach((b, bIdx) => ...)\<close> of the table: the callback
  assigns \<open>yPos\<close> and makes three calls of \<open>Math.random()\<close>.
\<close>

definition bearingRow ::
  "js_env \<Rightarrow> real \<Rightarrow> nat \<Rightarrow> bearing \<Rightarrow> real \<times> nat \<Rightarrow> error + (op list \<times> (real \<times> nat))" where
  "bearingRow env margin bIdx b = (\<lambda>(yPos, rnd).
     let bearingId = js_or (js_or (b_id b) (b_bearingId b))
                       (JStr (''Bearing-'' @ string_of_nat (bIdx + 1)))
     in bind (bearingStatus b) (\<lambda>bStatus.
     let vel = toFixed env (1.5 + random env rnd * 2) 2;
         acc = toFixed env (0.1 + random env (rnd + 1) * 0.2) 3;
         temp = toFixed env (25 + random env (rnd + 2) * 10) 1
     in bind (substring0 bearingId 25) (\<lambda>idText.
     let rowData = [idText, bStatus, vel, acc, temp];
         bgColor = (if bIdx mod 2 = 0 then [255, 255, 255] else [248, 250, 252])
     in bind (forEach (\<lambda>i w tableX.
                bind (if i = 2 then Inr [SetTextColor (getVelocityColor (js_parseFloat env (JStr (rowData ! i))))]
                      else if i = 1 then
                        bind (getStatusSeverity (JStr bStatus)) (\<lambda>sev.
                          Inr [SetTextColor (bg (SEVERITY_COLORS sev))])
                      else Inr [SetTextColor [30, 41, 59]]) (\<lambda>colour.
                Inr ([SetFillColor bgColor, Rect tableX yPos w rowHeight ''F'',
                      SetDrawColor [226, 232, 240], Rect tableX yPos w rowHeight ''S'']
                     @ colour
                     @ [SetFontSize 7, SetFont ''helvetica'' ''normal'',
                        Text (rowData ! i) (tableX + 2) (yPos + 5) NoOpt], tableX + w)))
              0 colWidths margin) (\<lambda>(cells, tableX).
     Inr (cells, (yPos + rowHeight, rnd + 3))))))"

text \<open>
  One pass of \<open>['H', 'V', 'A'].forEach((axis) => ...)\<close> of the chart gallery. The callback
  assigns \<open>chartIndex\<close> and \<open>pageNum\<close>, and \<open>generateFFTData(200, ...)\<close> makes 200 calls
  of \<open>Math.random()\<close>; \<open>nCharts\<close> is \<open>bearingsToReport.length * 3\<close>.
\<close>

definition galleryChart ::
  "js_env \<Rightarrow> string option \<Rightarrow> jsval \<Rightarrow> real \<Rightarrow> nat \<Rightarrow> jsval \<Rightarrow> real \<Rightarrow> axis \<Rightarrow>
   nat \<times> nat \<times> nat \<Rightarrow> error + (op list \<times> (nat \<times> nat \<times> nat))" where
  "galleryChart env logo machineName margin nCharts bearingId statusMultiplier axis =
     (\<lambda>(chartIndex, pageNum, rnd).
     let contentWidth = pageWidth env - 2 * margin in
     bind (if chartIndex mod 2 = 0 then
             bind (drawPageHeader env logo machineName (pageWidth env) margin) (\<lambda>hdr.
             bind (substring0 bearingId 40) (\<lambda>idText.
               Inr (AddPage # hdr @
                    [SetTextColor [30, 41, 59], SetFontSize 9,
                     Text (''Bearing: '' @ idText) margin 28 NoOpt])))
           else Inr []) (\<lambda>pageStart.
     let chartTitle = ''FFT Spectrum - Velocity > ('' @ axis_letter axis @ ''-Axis)'';
         chartYPos = (if chartIndex mod 2 = 0 then 45 else 145);
         fftData = generateFFTData_bearing (random env) rnd 200 statusMultiplier;
         chart = drawFFTChart (Some fftData) (margin + 5) chartYPos (contentWidth - 10) 80
                   chartTitle (chartColors axis)
                 @ [SetFontSize 7, SetTextColor [100, 100, 100],
                    Text (''Date: '' @ isoDate env) (margin + 5) (chartYPos + 90) NoOpt];
         chartIndex = chartIndex + 1
     in if chartIndex mod 2 = 0 \<or> chartIndex = nCharts
        then Inr (pageStart @ chart
                  @ drawPageFooter pageNum (pageWidth env) (pageHeight env) margin,
                  (chartIndex, pageNum + 1, rnd + 200))
        else Inr (pageStart @ chart, (chartIndex, pageNum, rnd + 200))))"

text \<open>One pass of \<open>bearingsToReport.forEach((b) => ...)\<close> of the chart gallery.\<close>

definition galleryBearing ::
  "js_env \<Rightarrow> string option \<Rightarrow> jsval \<Rightarrow> real \<Rightarrow> nat \<Rightarrow> nat \<Rightarrow> bearing \<Rightarrow>
   nat \<times> nat \<times> nat \<Rightarrow> error + (op list \<times> (nat \<times> nat \<times> nat))" where
  "galleryBearing env logo machineName margin nCharts bIdx b s =
     (let bearingId = js_or (js_or (b_id b) (b_bearingId b)) (JStr ''Bearing'')
      in bind (bearingStatus b) (\<lambda>bStatus.
      let statusMultiplier = (if bStatus = ''unacceptable'' then 2.5
                              else if bStatus = ''alert'' then 1.8 else 1.0)
      in forEach (\<lambda>aIdx axis. galleryChart env logo machineName margin nCharts bearingId
                     statusMultiplier axis)
           0 [H_axis, V_axis, A_axis] s))"

text \<open>
  The characters the pattern \<open>/[^a-zA-Z0-9()-]/g\<close> leaves alone, and
  \<open>machineName.replace(/[^a-zA-Z0-9()-]/g, '_')\<close>.
\<close>

definition allowed_char :: "char \<Rightarrow> bool" where
  "allowed_char c = (is_lower c \<or> is_upper c \<or> is_digit c
     \<or> c = CHR ''('' \<or> c = CHR '')'' \<or> c = CHR ''-'')"

fun replace_disallowed :: "jsval \<Rightarrow> error + string" where
  "replace_disallowed (JStr s) = Inr (map (\<lambda>c. if allowed_char c then c else CHR ''_'') s)"
| "replace_disallowed _ = Inl TypeError"

text \<open>The name under which the document is saved.\<close>

definition reportFileName ::
  "js_env \<Rightarrow> jsval \<Rightarrow> bool \<Rightarrow> bearing option \<Rightarrow> error + string" where
  "reportFileName env machineName isSingleBearing brg =
     bind (case brg of
             Some b \<Rightarrow> if isSingleBearing
                       then substring0 (js_or (js_or (b_id b) (b_bearingId b)) (JStr ''bearing'')) 20
                       else Inr ''all_bearings''
           | None \<Rightarrow> Inr ''all_bearings'') (\<lambda>bearingName.
     bind (replace_disallowed machineName) (\<lambda>sanitized.
       Inr (''Report_'' @ sanitized @ ''_'' @ bearingName @ ''_'' @ isoDate env @ ''.pdf'')))"

text \<open>
  The body of the \<open>try\<close> block of \<open>generatePDFReport\<close>; \<open>logo\<close> is what \<open>loadLogo()\<close>
  returned (\<open>None\<close> when the logo could not be loaded). When the rows of the table begin,
  \<open>yPos\<close> has reached 26 + 10 + 10 + 38 + 6 + 7 = 97 and \<open>Math.random()\<close> has not been
  called.
\<close>

definition reportBody ::
  "js_env \<Rightarrow> string option \<Rightarrow> machine \<Rightarrow> bearing option \<Rightarrow> bearing list \<Rightarrow> bool \<Rightarrow>
   error + (string \<times> op list)" where
  "reportBody env logo m brg bearings isSingleBearing =
     (let margin = 12 :: real;
          contentWidth = pageWidth env - 2 * margin;
          machineName = machineName_of m
      in bind (machineStatus m) (\<lambda>status.
         bind (getStatusSeverity (JStr status)) (\<lambda>severity.
         let statusColor = SEVERITY_COLORS severity;
             toReport = bearingsToReport isSingleBearing brg bearings;
             pageNum = 1 :: nat
         in bind (drawPageHeader env logo machineName (pageWidth env) margin) (\<lambda>hdr.
            bind (machineDetails env m margin contentWidth) (\<lambda>det.
            bind (bearingTableHeader (length toReport) margin) (\<lambda>thead.
            bind (forEach (bearingRow env margin) 0 toReport (97, 0)) (\<lambda>(rows, (yPos, rnd)).
            let page1 = hdr @ titleAndStatus env isSingleBearing status statusColor margin
                        @ det @ thead @ rows
                        @ drawPageFooter pageNum (pageWidth env) (pageHeight env) margin;
                pageNum = pageNum + 1
            in bind (forEach (galleryBearing env logo machineName margin (length toReport * 3))
                       0 toReport (0, pageNum, rnd)) (\<lambda>(gallery, s).
               bind (reportFileName env machineName isSingleBearing brg) (\<lambda>fileName.
               Inr (fileName, page1 @ gallery))))))))))"

text \<open>
  \<open>generatePDFReport\<close>: nothing happens without a machine; an exception in the body is
  caught, reported with an alert, and no document is saved.
\<close>

definition generatePDFReport ::
  "js_env \<Rightarrow> string option \<Rightarrow> machine option \<Rightarrow> bearing option \<Rightarrow> bearing list \<Rightarrow> bool \<Rightarrow>
   outcome" where
  "generatePDFReport env logo machine brg bearings isSingleBearing =
     (case machine of
        None \<Rightarrow> NoMachine
      | Some m \<Rightarrow>
          (case reportBody env logo m brg bearings isSingleBearing of
             Inl e \<Rightarrow> Failed e
           | Inr (fileName, calls) \<Rightarrow> Saved fileName calls))"

section \<open>The machine report generator of ChartsSection.jsx\<close>

text \<open>
  The component \<open>ReportGenerator\<close> draws its table and its chart gallery from
  \<open>generateMockBearingData(machine)\<close>, four bearings with fixed names.
\<close>

record metric =
  met_vel :: string
  met_acc :: string
  met_env :: string

record bearingData =
  bd_bearingName :: string
  bd_date :: jsval
  bd_sr :: nat
  bd_metrics :: "axis \<Rightarrow> metric"
  bd_fftData :: "axis \<Rightarrow> point list"

text \<open>\<open>machine.status === 'unacceptable' ? 2.5 : ... : 1.0\<close>\<close>

definition mockStatusMultiplier :: "machine \<Rightarrow> real" where
  "mockStatusMultiplier m =
     (if m_status m = JStr ''unacceptable'' then 2.5
      else if m_status m = JStr ''alert'' then 1.8
      else if m_status m = JStr ''satisfactory'' then 1.2 else 1.0)"

text \<open>
  The callback of \<open>bearings.map\<close>: twelve calls of \<open>Math.random()\<close> for the scalars, in
  the order of the source, then three series of 200 points.
\<close>

definition mockBearing :: "js_env \<Rightarrow> machine \<Rightarrow> string \<Rightarrow> nat \<Rightarrow> bearingData \<times> nat" where
  "mockBearing env m bearingName rnd =
     (let date = js_or (m_date m) (JStr (isoDate env));
          statusMultiplier = mockStatusMultiplier m;
          r = random env;
          baseVel = (0.5 + r rnd * 1.5) * statusMultiplier;
          baseAcc = (0.1 + r (rnd + 1) * 0.3) * statusMultiplier;
          baseEnv = (0.05 + r (rnd + 2) * 0.15) * statusMultiplier;
          mH = \<lparr>met_vel = toFixed env (baseVel + r (rnd + 3) * 0.5) 2,
                met_acc = toFixed env (baseAcc + r (rnd + 4) * 0.1) 3,
                met_env = toFixed env (baseEnv + r (rnd + 5) * 0.05) 3\<rparr>;
          mV = \<lparr>met_vel = toFixed env (baseVel + r (rnd + 6) * 0.8) 2,
                met_acc = toFixed env (baseAcc + r (rnd + 7) * 0.15) 3,
                met_env = toFixed env (baseEnv + r (rnd + 8) * 0.08) 3\<rparr>;
          mA = \<lparr>met_vel = toFixed env (baseVel + r (rnd + 9) * 0.3) 2,
                met_acc = toFixed env (baseAcc + r (rnd + 10) * 0.08) 3,
                met_env = toFixed env (baseEnv + r (rnd + 11) * 0.03) 3\<rparr>;
          fH = generateFFTData r (rnd + 12) 200 statusMultiplier;
          fV = generateFFTData r (rnd + 212) 200 statusMultiplier;
          fA = generateFFTData r (rnd + 412) 200 statusMultiplier
      in (\<lparr>bd_bearingName = bearingName, bd_date = date, bd_sr = 20000,
           bd_metrics = (\<lambda>a. case a of H_axis \<Rightarrow> mH | V_axis \<Rightarrow> mV | A_axis \<Rightarrow> mA),
           bd_fftData = (\<lambda>a. case a of H_axis \<Rightarrow> fH | V_axis \<Rightarrow> fV | A_axis \<Rightarrow> fA)\<rparr>,
          rnd + 612))"

fun mockBearings :: "js_env \<Rightarrow> machine \<Rightarrow> string list \<Rightarrow> nat \<Rightarrow> bearingData list \<times> nat" where
  "mockBearings env m [] rnd = ([], rnd)"
| "mockBearings env m (n # ns) rnd =
     (let (b, rnd') = mockBearing env m n rnd;
          (bs, rnd'') = mockBearings env m ns rnd'
      in (b # bs, rnd''))"

definition generateMockBearingData :: "js_env \<Rightarrow> machine \<Rightarrow> nat \<Rightarrow> bearingData list \<times> nat" where
  "generateMockBearingData env m rnd =
     mockBearings env m [''Motor DE'', ''Motor NDE'', ''Pump DE'', ''Pump NDE''] rnd"

text \<open>The rows of the vibration data table (page 3).\<close>

definition vibColWidths :: "real list" where
  "vibColWidths = [35, 25, 15, 28, 25, 25, 25]"

text \<open>One pass of \<open>['H', 'V', 'A'].forEach((axis, aIdx) => ...)\<close>; the callback assigns \<open>yPos\<close>.\<close>

definition vibrationRow ::
  "js_env \<Rightarrow> real \<Rightarrow> nat \<Rightarrow> bearingData \<Rightarrow> nat \<Rightarrow> axis \<Rightarrow> real \<Rightarrow> error + (op list \<times> real)" where
  "vibrationRow env margin bIdx brg aIdx axis yPos =
     (let metrics = bd_metrics brg axis;
          rowData = [if aIdx = 0 then JStr (bd_bearingName brg) else JStr [],
                     if aIdx = 0 then bd_date brg else JStr [],
                     JStr (axis_letter axis),
                     JStr (met_vel metrics), JStr (met_acc metrics), JStr (met_env metrics),
                     JStr ''-''];
          bgColor = (if bIdx mod 2 = 0 then [255, 255, 255] else [248, 250, 252])
      in bind (forEach (\<lambda>i w tableX.
                 let colour = (if i = 3
                               then [SetTextColor (getVelocityColor (js_parseFloat env (rowData ! i)))]
                               else [SetTextColor [30, 41, 59]])
                 in bind (pdf_text (rowData ! i) (tableX + 2) (yPos + 5) NoOpt) (\<lambda>t.
                 Inr ([SetFillColor bgColor, Rect tableX yPos w rowHeight ''F'',
                       SetDrawColor [226, 232, 240], Rect tableX yPos w rowHeight ''S'']
                      @ colour
                      @ [SetFontSize 7, SetFont ''helvetica'' ''normal''] @ t, tableX + w)))
               0 vibColWidths margin) (\<lambda>(cells, tableX).
         Inr (cells, yPos + rowHeight)))"

text \<open>\<open>bearingsData.forEach((bearing, bIdx) => ...)\<close> of the table.\<close>

definition vibrationRows ::
  "js_env \<Rightarrow> real \<Rightarrow> bearingData list \<Rightarrow> real \<Rightarrow> error + (op list \<times> real)" where
  "vibrationRows env margin bearingsData yPos =
     forEach (\<lambda>bIdx brg. forEach (vibrationRow env margin bIdx brg) 0 [H_axis, V_axis, A_axis])
       0 bearingsData yPos"

text \<open>
  One pass of \<open>['H', 'V', 'A'].forEach((axis) => ...)\<close> of the chart gallery (pages 4 and
  following). The callback assigns \<open>chartIndex\<close> and \<open>pageNum\<close>; \<open>nCharts\<close> is
  \<open>bearingsData.length * 3\<close>.
\<close>

definition fftChart ::
  "js_env \<Rightarrow> string option \<Rightarrow> machine \<Rightarrow> real \<Rightarrow> nat \<Rightarrow> bearingData \<Rightarrow> axis \<Rightarrow>
   nat \<times> nat \<Rightarrow> error + (op list \<times> (nat \<times> nat))" where
  "fftChart env logo m margin nCharts brg axis =
     (\<lambda>(chartIndex, pageNum).
     let contentWidth = pageWidth env - 2 * margin in
     bind (if chartIndex mod 2 = 0 then
             bind (drawPageHeader env logo (js_or (m_machineName m) (m_name m)) (pageWidth env) margin)
               (\<lambda>hdr.
               Inr (AddPage # hdr @
                    [SetTextColor [30, 41, 59], SetFontSize 9,
                     Text (''Area Name: '' @ js_toString env (js_or (m_areaId m) (JStr ''N/A'')))
                       margin 28 NoOpt]))
           else Inr []) (\<lambda>pageStart.
     let chartTitle = ''FFT Series - '' @ bd_bearingName brg @ '' > Velocity > (''
                      @ axis_letter axis @ ''-Axis) > '' @ js_toString env (bd_date brg);
         chartYPos = (if chartIndex mod 2 = 0 then 45 else 145);
         chart = drawFFTChart (Some (bd_fftData brg axis)) (margin + 5) chartYPos
                   (contentWidth - 10) 80 chartTitle (chartColors axis)
                 @ [SetFontSize 7, SetTextColor [100, 100, 100],
                    Text (''Description: '' @ bd_bearingName brg @ ''-'' @ axis_letter axis)
                      (margin + 5) (chartYPos + 90) NoOpt];
         chartIndex = chartIndex + 1
     in if chartIndex mod 2 = 0 \<or> chartIndex = nCharts
        then Inr (pageStart @ chart
                  @ drawPageFooter pageNum (pageWidth env) (pageHeight env) margin,
                  (chartIndex, pageNum + 1))
        else Inr (pageStart @ chart, (chartIndex, pageNum))))"

text \<open>\<open>bearingsData.forEach((bearing) => ...)\<close> of the chart gallery.\<close>

definition fftGallery ::
  "js_env \<Rightarrow> string option \<Rightarrow> machine \<Rightarrow> real \<Rightarrow> bearingData list \<Rightarrow> nat \<Rightarrow>
   error + (op list \<times> (nat \<times> nat))" where
  "fftGallery env logo m margin bearingsData pageNum =
     forEach (\<lambda>bIdx brg.
                forEach (\<lambda>aIdx axis. fftChart env logo m margin (length bearingsData * 3) brg axis)
                  0 [H_axis, V_axis, A_axis])
       0 bearingsData (0, pageNum)"

section \<open>Well-formed input and sample data\<close>

text \<open>
  A property of a record is usable when it is absent (or falsy in another way) or a string.
\<close>

fun usable :: "jsval \<Rightarrow> bool" where
  "usable (JStr s) = True"
| "usable v = (\<not> truthy v)"

fun is_str :: "jsval \<Rightarrow> bool" where
  "is_str (JStr s) = True"
| "is_str v = False"

definition usable_machine :: "machine \<Rightarrow> bool" where
  "usable_machine m = (usable (m_name m) \<and> usable (m_machineName m) \<and> usable (m_statusName m)
     \<and> usable (m_status m) \<and> usable (m_machineId m) \<and> usable (m_id m)
     \<and> usable (m_customerId m) \<and> usable (m_areaId m) \<and> usable (m_type m))"

definition usable_bearing :: "bearing \<Rightarrow> bool" where
  "usable_bearing b = (usable (b_id b) \<and> usable (b_bearingId b) \<and> usable (b_statusName b)
     \<and> usable (b_status b))"

text \<open>The severity the report assigns to a machine and to a bearing.\<close>

definition machineSeverity :: "machine \<Rightarrow> error + severity" where
  "machineSeverity m = bind (machineStatus m) (\<lambda>status. getStatusSeverity (JStr status))"

definition bearingSeverity :: "bearing \<Rightarrow> error + severity" where
  "bearingSeverity b = bind (bearingStatus b) (\<lambda>bStatus. getStatusSeverity (JStr bStatus))"

definition savedName :: "outcome \<Rightarrow> string option" where
  "savedName r = (case r of Saved fileName calls \<Rightarrow> Some fileName | _ \<Rightarrow> None)"

text \<open>
  A runtime for the examples: \<open>Math.random()\<close> returns 0.5 every time, \<open>toFixed\<close> and
  \<open>parseFloat\<close> are those of JavaScript on the non-negative decimals that occur, the run
  takes place on 2024-06-01, and the page is A4 in millimetres.
\<close>

definition sample_toFixed :: "real \<Rightarrow> nat \<Rightarrow> string" where
  "sample_toFixed x d =
     (let n = nat \<lfloor>x * 10 ^ d + 1 / 2\<rfloor>;
          fs = string_of_nat (n mod 10 ^ d)
      in string_of_nat (n div 10 ^ d)
         @ (if d = 0 then [] else ''.'' @ replicate (d - length fs) (CHR ''0'') @ fs))"

definition digits_value :: "string \<Rightarrow> nat" where
  "digits_value s = fold (\<lambda>c n. 10 * n + ((of_char c :: nat) - 48)) s 0"

definition sample_parseFloat :: "string \<Rightarrow> jsnum" where
  "sample_parseFloat s =
     (let ip = takeWhile is_digit s; rest = dropWhile is_digit s
      in if ip = [] then NaN
         else (case rest of
                 c # fr \<Rightarrow>
                   if c = CHR ''.''
                   then (let fp = takeWhile is_digit fr
                         in Fin (real (digits_value ip) + real (digits_value fp) / 10 ^ length fp))
                   else Fin (real (digits_value ip))
               | [] \<Rightarrow> Fin (real (digits_value ip))))"

definition sample_numberToString :: "jsnum \<Rightarrow> string" where
  "sample_numberToString n = (case n of Fin x \<Rightarrow> sample_toFixed x 0 | _ \<Rightarrow> ''NaN'')"

definition sample_random :: "nat \<Rightarrow> real" where
  "sample_random k = 1 / 2"

definition sample_env :: js_env where
  "sample_env = \<lparr>random = sample_random, toFixed = sample_toFixed,
     parseFloat = sample_parseFloat, numberToString = sample_numberToString,
     toLocaleDateString = ''6/1/2024'', toISOString = ''2024-06-01T10:15:30.000Z'',
     pageWidth = 210, pageHeight = 297, addImage_ok = True\<rparr>"

text \<open>A machine record with an id only, one named "Pump-01/X", and one with a numeric status.\<close>

definition no_machine_fields :: machine where
  "no_machine_fields = \<lparr>m_name = JUndefined, m_machineName = JUndefined,
     m_statusName = JUndefined, m_status = JUndefined, m_machineId = JUndefined,
     m_id = JUndefined, m_customerId = JUndefined, m_areaId = JUndefined,
     m_type = JUndefined, m_date = JUndefined\<rparr>"

definition machine_id_only :: machine where
  "machine_id_only = no_machine_fields\<lparr>m_machineId := JStr ''M1''\<rparr>"

definition machine_pump :: machine where
  "machine_pump = no_machine_fields\<lparr>m_machineId := JStr ''M1'', m_name := JStr ''Pump-01/X''\<rparr>"

definition machine_numeric_status :: machine where
  "machine_numeric_status = no_machine_fields\<lparr>m_machineId := JStr ''M1'', m_status := JNum (Fin 5)\<rparr>"

definition machine_alert :: machine where
  "machine_alert = no_machine_fields\<lparr>m_machineId := JStr ''M1'', m_status := JStr ''alert'',
     m_type := JStr ''ONLINE''\<rparr>"

text \<open>
  Bearings: one with an id and no status, one with the status "alert", one with an id of
  more than 20 characters.
\<close>

definition bearing_no_status :: bearing where
  "bearing_no_status = \<lparr>b_id = JStr ''B1'', b_bearingId = JUndefined,
     b_statusName = JUndefined, b_status = JUndefined\<rparr>"

definition bearing_alert :: bearing where
  "bearing_alert = \<lparr>b_id = JStr ''B2'', b_bearingId = JUndefined,
     b_statusName = JUndefined, b_status = JStr ''alert''\<rparr>"

definition bearing_long_id :: bearing where
  "bearing_long_id = \<lparr>b_id = JStr ''bearing-0123456789-abcdefghij'', b_bearingId = JUndefined,
     b_statusName = JStr ''Normal'', b_status = JUndefined\<rparr>"

section \<open>The gallery and the tables as the specification describes them\<close>

text \<open>
  For comparison with the loops of the generators. The panels of a gallery are numbered
  from 0 in the order of the specification, bearings in the outer loop and the axes H, V, A
  in the inner one: panel \<open>j\<close> is axis \<open>j mod 3\<close> of bearing \<open>j div 3\<close>.
\<close>

definition panelAxis :: "nat \<Rightarrow> axis" where
  "panelAxis j = [H_axis, V_axis, A_axis] ! (j mod 3)"

definition ops_of :: "error + 'a list \<Rightarrow> 'a list" where
  "ops_of r = (case r of Inr calls \<Rightarrow> calls | Inl e \<Rightarrow> [])"

definition text_of :: "error + string \<Rightarrow> string" where
  "text_of r = (case r of Inr s \<Rightarrow> s | Inl e \<Rightarrow> [])"

definition row_of :: "error + (op list \<times> 's) \<Rightarrow> op list" where
  "row_of r = (case r of Inr (calls, s) \<Rightarrow> calls | Inl e \<Rightarrow> [])"

text \<open>The texts written by a sequence of calls, in order.\<close>

definition texts :: "op list \<Rightarrow> string list" where
  "texts calls = concat (map (\<lambda>c. case c of Text s x y opt \<Rightarrow> [s] | _ \<Rightarrow> []) calls)"

text \<open>
  The bearing report: panel \<open>j\<close> of the gallery, drawn at the top of its page when \<open>j\<close> is
  even and at the bottom otherwise, with the date line under it; \<open>r0\<close> is the number of calls
  of \<open>Math.random()\<close> made before the gallery.
\<close>

definition galleryMultiplier :: "bearing \<Rightarrow> real" where
  "galleryMultiplier b =
     (if text_of (bearingStatus b) = ''unacceptable'' then 2.5
      else if text_of (bearingStatus b) = ''alert'' then 1.8 else 1.0)"

definition bearingPanel :: "js_env \<Rightarrow> real \<Rightarrow> bearing list \<Rightarrow> nat \<Rightarrow> nat \<Rightarrow> op list" where
  "bearingPanel env margin bs r0 j =
     (let chartYPos = (if even j then 45 else 145) in
      drawFFTChart
        (Some (generateFFTData_bearing (random env) (r0 + 200 * j) 200
                 (galleryMultiplier (bs ! (j div 3)))))
        (margin + 5) chartYPos (pageWidth env - 2 * margin - 10) 80
        (''FFT Spectrum - Velocity > ('' @ axis_letter (panelAxis j) @ ''-Axis)'')
        (chartColors (panelAxis j))
      @ [SetFontSize 7, SetTextColor [100, 100, 100],
         Text (''Date: '' @ isoDate env) (margin + 5) (chartYPos + 90) NoOpt])"

text \<open>
  Page \<open>k\<close> of the gallery, counted from 1, of a gallery of \<open>3 * length bs\<close> panels: a new
  page with its header and the id of the bearing of its first panel, the panels at the
  positions \<open>2k - 1\<close> and \<open>2k\<close> (numbers \<open>2k - 2\<close> and \<open>2k - 1\<close> from 0), the second one
  only when it exists, and the footer; \<open>p0\<close> is the number of the first gallery page.
\<close>

definition bearingGalleryPage ::
  "js_env \<Rightarrow> string option \<Rightarrow> jsval \<Rightarrow> real \<Rightarrow> bearing list \<Rightarrow> nat \<Rightarrow> nat \<Rightarrow> nat \<Rightarrow> op list" where
  "bearingGalleryPage env logo machineName margin bs p0 r0 k =
     AddPage # ops_of (drawPageHeader env logo machineName (pageWidth env) margin)
     @ [SetTextColor [30, 41, 59], SetFontSize 9,
        Text (''Bearing: '' @ text_of (substring0
                (js_or (js_or (b_id (bs ! ((2 * k - 2) div 3))) (b_bearingId (bs ! ((2 * k - 2) div 3))))
                   (JStr ''Bearing'')) 40))
          margin 28 NoOpt]
     @ bearingPanel env margin bs r0 (2 * k - 2)
     @ (if 2 * k - 1 < 3 * length bs then bearingPanel env margin bs r0 (2 * k - 1) else [])
     @ drawPageFooter (p0 + k - 1) (pageWidth env) (pageHeight env) margin"

text \<open>The same for the gallery of the machine report of ChartsSection.jsx.\<close>

definition machinePanel :: "js_env \<Rightarrow> real \<Rightarrow> bearingData list \<Rightarrow> nat \<Rightarrow> op list" where
  "machinePanel env margin bds j =
     (let chartYPos = (if even j then 45 else 145); brg = bds ! (j div 3) in
      drawFFTChart (Some (bd_fftData brg (panelAxis j)))
        (margin + 5) chartYPos (pageWidth env - 2 * margin - 10) 80
        (''FFT Series - '' @ bd_bearingName brg @ '' > Velocity > (''
           @ axis_letter (panelAxis j) @ ''-Axis) > '' @ js_toString env (bd_date brg))
        (chartColors (panelAxis j))
      @ [SetFontSize 7, SetTextColor [100, 100, 100],
         Text (''Description: '' @ bd_bearingName brg @ ''-'' @ axis_letter (panelAxis j))
           (margin + 5) (chartYPos + 90) NoOpt])"

definition machineGalleryPage ::
  "js_env \<Rightarrow> string option \<Rightarrow> machine \<Rightarrow> real \<Rightarrow> bearingData list \<Rightarrow> nat \<Rightarrow> nat \<Rightarrow> op list" where
  "machineGalleryPage env logo m margin bds p0 k =
     AddPage # ops_of (drawPageHeader env logo (js_or (m_machineName m) (m_name m)) (pageWidth env) margin)
     @ [SetTextColor [30, 41, 59], SetFontSize 9,
        Text (''Area Name: '' @ js_toString env (js_or (m_areaId m) (JStr ''N/A''))) margin 28 NoOpt]
     @ machinePanel env margin bds (2 * k - 2)
     @ (if 2 * k - 1 < 3 * length bds then machinePanel env margin bds (2 * k - 1) else [])
     @ drawPageFooter (p0 + k - 1) (pageWidth env) (pageHeight env) margin"

text \<open>
  The pages of a bearing report, for a machine and bearings whose properties are usable:
  page 1, then the pages of the gallery, numbered from 2; the table of page 1 has made
  three calls of \<open>Math.random()\<close> per bearing.
\<close>

definition sev_of :: "error + severity \<Rightarrow> severity" where
  "sev_of r = (case r of Inr s \<Rightarrow> s | Inl e \<Rightarrow> A)"

definition bearingTableRows :: "js_env \<Rightarrow> real \<Rightarrow> bearing list \<Rightarrow> op list" where
  "bearingTableRows env margin bs =
     concat (map (\<lambda>k. row_of (bearingRow env margin k (bs ! k) (97 + rowHeight * real k, 0 + 3 * k)))
               [0..<length bs])"

definition reportPage1 ::
  "js_env \<Rightarrow> string option \<Rightarrow> machine \<Rightarrow> bearing list \<Rightarrow> bool \<Rightarrow> op list" where
  "reportPage1 env logo m bs isSingleBearing =
     ops_of (drawPageHeader env logo (machineName_of m) (pageWidth env) 12)
     @ titleAndStatus env isSingleBearing (text_of (machineStatus m))
         (SEVERITY_COLORS (sev_of (machineSeverity m))) 12
     @ ops_of (machineDetails env m 12 (pageWidth env - 2 * 12))
     @ ops_of (bearingTableHeader (length bs) 12)
     @ bearingTableRows env 12 bs
     @ drawPageFooter 1 (pageWidth env) (pageHeight env) 12"

definition reportPages ::
  "js_env \<Rightarrow> string option \<Rightarrow> machine \<Rightarrow> bearing list \<Rightarrow> bool \<Rightarrow> op list" where
  "reportPages env logo m bs isSingleBearing =
     reportPage1 env logo m bs isSingleBearing
     @ concat (map (bearingGalleryPage env logo (machineName_of m) 12 bs 2 (0 + 3 * length bs))
                 [1..<Suc ((3 * length bs + 1) div 2)])"

text \<open>The severity the specification gives to a status label, in any letter case.\<close>

definition spec_classify :: "string \<Rightarrow> severity" where
  "spec_classify s =
     (if spelling_of ''normal'' s then A
      else if spelling_of ''satisfactory'' s then B
      else if spelling_of ''alert'' s then C
      else if spelling_of ''unacceptable'' s \<or> spelling_of ''unsatisfactory'' s then D
      else A)"

text \<open>
  What the galleries draw for panel \<open>j\<close> alone: the start of a page before an even panel,
  the panel, and the footer after an odd panel or after the last one; \<open>hdr\<close> is the page
  header.
\<close>

definition galleryOut ::
  "js_env \<Rightarrow> op list \<Rightarrow> real \<Rightarrow> bearing list \<Rightarrow> nat \<Rightarrow> nat \<Rightarrow> nat \<Rightarrow> op list" where
  "galleryOut env hdr margin bs p0 r0 j =
     (if even j
      then AddPage # hdr @
           [SetTextColor [30, 41, 59], SetFontSize 9,
            Text (''Bearing: '' @ text_of (substring0
                    (js_or (js_or (b_id (bs ! (j div 3))) (b_bearingId (bs ! (j div 3))))
                       (JStr ''Bearing'')) 40)) margin 28 NoOpt]
      else [])
     @ bearingPanel env margin bs r0 j
     @ (if even (Suc j) \<or> Suc j = 3 * length bs
        then drawPageFooter (p0 + (if j = 3 * length bs then (j + 1) div 2 else j div 2))
               (pageWidth env) (pageHeight env) margin
        else [])"

definition machineOut ::
  "js_env \<Rightarrow> op list \<Rightarrow> machine \<Rightarrow> real \<Rightarrow> bearingData list \<Rightarrow> nat \<Rightarrow> nat \<Rightarrow> op list" where
  "machineOut env hdr m margin bds p0 j =
     (if even j
      then AddPage # hdr @
           [SetTextColor [30, 41, 59], SetFontSize 9,
            Text (''Area Name: '' @ js_toString env (js_or (m_areaId m) (JStr ''N/A''))) margin 28 NoOpt]
      else [])
     @ machinePanel env margin bds j
     @ (if even (Suc j) \<or> Suc j = 3 * length bds
        then drawPageFooter (p0 + (if j = 3 * length bds then (j + 1) div 2 else j div 2))
               (pageWidth env) (pageHeight env) margin
        else [])"

section \<open>Properties of the severity classifier\<close>

lemma toLowerCase_char_spelling:
  assumes "is_lower d"
  shows "toLowerCase_char c = d \<longleftrightarrow> c = d \<or> c = toUpperCase_char d"
proof -
  have d: "97 \<le> (of_char d :: nat)" "(of_char d :: nat) \<le> 122"
    using assms by (simp_all add: is_lower_def)
  have up: "(of_char (toUpperCase_char d) :: nat) = of_char d - 32"
    using d assms by (simp add: toUpperCase_char_def)
  show ?thesis
  proof
    assume h: "toLowerCase_char c = d"
    show "c = d \<or> c = toUpperCase_char d"
    proof (cases "is_upper c")
      case True
      then have "(of_char d :: nat) = (of_char c + 32) mod 256"
        using h by (auto simp: toLowerCase_char_def)
      moreover have "(of_char c :: nat) + 32 < 256"
        using True by (simp add: is_upper_def)
      ultimately have "(of_char d :: nat) = of_char c + 32" by simp
      then have "(of_char (toUpperCase_char d) :: nat) = of_char c" using up by simp
      then show ?thesis by simp
    next
      case False
      then show ?thesis using h by (simp add: toLowerCase_char_def)
    qed
  next
    assume "c = d \<or> c = toUpperCase_char d"
    then show "toLowerCase_char c = d"
    proof
      assume "c = d"
      then show ?thesis using d by (simp add: toLowerCase_char_def is_upper_def)
    next
      assume c: "c = toUpperCase_char d"
      then have oc: "(of_char c :: nat) = of_char d - 32" using up by simp
      have "is_upper c" unfolding is_upper_def using oc d by arith
      moreover have "(of_char c :: nat) + 32 = of_char d" using oc d by simp
      ultimately show ?thesis by (simp add: toLowerCase_char_def)
    qed
  qed
qed

lemma map_toLowerCase_spelling:
  "list_all is_lower t \<Longrightarrow> map toLowerCase_char s = t \<longleftrightarrow> spelling_of t s"
proof (induction s arbitrary: t)
  case Nil
  then show ?case by (auto simp: spelling_of_def)
next
  case (Cons c s)
  show ?case
  proof (cases t)
    case Nil
    then show ?thesis by (simp add: spelling_of_def)
  next
    case (Cons d t')
    then have "is_lower d" "list_all is_lower t'" using Cons.prems by simp_all
    then show ?thesis
      using Cons.IH [of t'] toLowerCase_char_spelling [of d c] Cons
      by (auto simp: spelling_of_def)
  qed
qed

lemma tokens_lower:
  "list_all is_lower ''normal''" "list_all is_lower ''satisfactory''"
  "list_all is_lower ''alert''" "list_all is_lower ''unacceptable''"
  "list_all is_lower ''unsatisfactory''"
  by (simp_all add: is_lower_def)

lemma getStatusSeverity_Str:
  "getStatusSeverity (JStr s) =
     Inr (if spelling_of ''normal'' s then A
          else if spelling_of ''satisfactory'' s then B
          else if spelling_of ''alert'' s then C
          else if spelling_of ''unacceptable'' s \<or> spelling_of ''unsatisfactory'' s then D
          else A)"
proof (cases "s = []")
  case True
  then show ?thesis
    by (simp add: getStatusSeverity_def js_or_def bind_def spelling_of_def)
next
  case False
  then have "getStatusSeverity (JStr s) =
      (let l = map toLowerCase_char s in
       if l = ''normal'' then Inr A
       else if l = ''satisfactory'' then Inr B
       else if l = ''alert'' then Inr C
       else if l = ''unacceptable'' \<or> l = ''unsatisfactory'' then Inr D
       else Inr A)"
    by (simp add: getStatusSeverity_def js_or_def bind_def Let_def)
  then show ?thesis
    by (simp only: Let_def map_toLowerCase_spelling [OF tokens_lower(1)]
        map_toLowerCase_spelling [OF tokens_lower(2)] map_toLowerCase_spelling [OF tokens_lower(3)]
        map_toLowerCase_spelling [OF tokens_lower(4)] map_toLowerCase_spelling [OF tokens_lower(5)]
        if_distrib [of Inr] split: if_splits)
qed

lemma getStatusSeverity_falsy:
  "getStatusSeverity JUndefined = Inr A" "getStatusSeverity JNull = Inr A"
  "getStatusSeverity (JStr []) = Inr A"
  by (simp_all add: getStatusSeverity_def js_or_def bind_def)

text \<open>
  C1. For a status label that is a string, in any letter case, \<open>getStatusSeverity\<close> returns
  one severity: A (level 1) for a spelling of "normal", B (level 2) for "satisfactory", C
  (level 3) for "alert", D (level 4) for "unacceptable" or "unsatisfactory", and A for every
  other string; the empty string, \<open>undefined\<close> and \<open>null\<close> give A as well.
\<close>

theorem getStatusSeverity_classifies:
  "getStatusSeverity JUndefined = Inr A \<and> getStatusSeverity JNull = Inr A \<and>
   getStatusSeverity (JStr []) = Inr A \<and>
   (\<forall>s. getStatusSeverity (JStr s) =
      Inr (if spelling_of ''normal'' s then A
           else if spelling_of ''satisfactory'' s then B
           else if spelling_of ''alert'' s then C
           else if spelling_of ''unacceptable'' s \<or> spelling_of ''unsatisfactory'' s then D
           else A)) \<and>
   level (SEVERITY_COLORS A) = 1 \<and> level (SEVERITY_COLORS B) = 2 \<and>
   level (SEVERITY_COLORS C) = 3 \<and> level (SEVERITY_COLORS D) = 4"
  using getStatusSeverity_Str getStatusSeverity_falsy by simp

text \<open>The label "AlErT" is a spelling of "alert" and is classified C; "ok" is classified A.\<close>

theorem getStatusSeverity_classifies_witness:
  "spelling_of ''alert'' ''AlErT'' \<and> getStatusSeverity (JStr ''AlErT'') = Inr C \<and>
   getStatusSeverity (JStr ''ok'') = Inr A"
proof -
  have s: "spelling_of ''alert'' ''AlErT''"
    and n: "\<not> spelling_of ''normal'' ''AlErT''" "\<not> spelling_of ''satisfactory'' ''AlErT''"
    and o: "\<not> spelling_of ''normal'' ''ok''" "\<not> spelling_of ''satisfactory'' ''ok''"
      "\<not> spelling_of ''alert'' ''ok''" "\<not> spelling_of ''unacceptable'' ''ok''"
      "\<not> spelling_of ''unsatisfactory'' ''ok''"
    by code_simp+
  have "getStatusSeverity (JStr ''AlErT'') =
      Inr (if spelling_of ''normal'' ''AlErT'' then A
           else if spelling_of ''satisfactory'' ''AlErT'' then B
           else if spelling_of ''alert'' ''AlErT'' then C
           else if spelling_of ''unacceptable'' ''AlErT'' \<or> spelling_of ''unsatisfactory'' ''AlErT''
           then D else A)"
    and "getStatusSeverity (JStr ''ok'') =
      Inr (if spelling_of ''normal'' ''ok'' then A
           else if spelling_of ''satisfactory'' ''ok'' then B
           else if spelling_of ''alert'' ''ok'' then C
           else if spelling_of ''unacceptable'' ''ok'' \<or> spelling_of ''unsatisfactory'' ''ok''
           then D else A)"
    using getStatusSeverity_classifies by blast+
  then show ?thesis using s n o by simp
qed

section \<open>Properties of the velocity colours\<close>

lemma getVelocityColor_Fin:
  "getVelocityColor (Fin v) =
     (if v > 7.1 then [239, 68, 68] else if v > 4.5 then [251, 146, 60]
      else if v > 2.8 then [245, 158, 11] else [16, 185, 129])"
  by (simp add: getVelocityColor_def)

text \<open>
  C4, as the code has it. For a numeric velocity \<open>v\<close>, \<open>getVelocityColor\<close> returns the
  colour of level 4 when \<open>v > 7.1\<close>, the orange \<open>[251, 146, 60]\<close>, which is the colour of no
  severity level, when \<open>4.5 < v \<le> 7.1\<close>, the colour of level 3 when \<open>2.8 < v \<le> 4.5\<close>, and the
  colour of level 1 when \<open>v \<le> 2.8\<close>.
\<close>

theorem getVelocityColor_bands:
  "(v > 7.1 \<longrightarrow> getVelocityColor (Fin v) = bg (SEVERITY_COLORS D)) \<and>
   (4.5 < v \<and> v \<le> 7.1 \<longrightarrow> getVelocityColor (Fin v) = [251, 146, 60]) \<and>
   (2.8 < v \<and> v \<le> 4.5 \<longrightarrow> getVelocityColor (Fin v) = bg (SEVERITY_COLORS C)) \<and>
   (v \<le> 2.8 \<longrightarrow> getVelocityColor (Fin v) = bg (SEVERITY_COLORS A)) \<and>
   (\<forall>s. bg (SEVERITY_COLORS s) \<noteq> [251, 146, 60])"
proof -
  have "bg (SEVERITY_COLORS s) \<noteq> [251, 146, 60]" for s
    by (cases s) simp_all
  then show ?thesis
    by (simp add: getVelocityColor_Fin)
qed

theorem getVelocityColor_bands_witness:
  "(8::real) > 7.1 \<and> getVelocityColor (Fin 8) = bg (SEVERITY_COLORS D) \<and>
   4.5 < (5::real) \<and> (5::real) \<le> 7.1 \<and> getVelocityColor (Fin 5) = [251, 146, 60] \<and>
   2.8 < (3::real) \<and> (3::real) \<le> 4.5 \<and> getVelocityColor (Fin 3) = bg (SEVERITY_COLORS C) \<and>
   (1::real) \<le> 2.8 \<and> getVelocityColor (Fin 1) = bg (SEVERITY_COLORS A)"
  using getVelocityColor_bands [of 8] getVelocityColor_bands [of 5]
    getVelocityColor_bands [of 3] getVelocityColor_bands [of 1]
  by simp

text \<open>
  At \<open>v = 5\<close> the colour is not that of level 3, and at \<open>v = 3\<close> it is not that of level 2.
\<close>

theorem getVelocityColor_canonical_counterexample:
  "4.5 < (5::real) \<and> (5::real) \<le> 7.1 \<and> getVelocityColor (Fin 5) \<noteq> bg (SEVERITY_COLORS C) \<and>
   2.8 < (3::real) \<and> (3::real) \<le> 4.5 \<and> getVelocityColor (Fin 3) \<noteq> bg (SEVERITY_COLORS B)"
  by (simp add: getVelocityColor_def)

section \<open>Properties of the spectrum chart renderer\<close>

lemma upt_1_5: "[Suc 0..<5] = [1, 2, 3, 4]"
  by (simp add: upt_rec)

lemma upt_1_10: "[Suc 0..<10] = [1, 2, 3, 4, 5, 6, 7, 8, 9]"
  by (simp add: upt_rec)

lemma chartPolyline_empty:
  "chartPolyline None x y w h color = []" "chartPolyline (Some []) x y w h color = []"
  by (simp_all add: chartPolyline_def)

text \<open>
  C5, as the code has it. With a series that is empty (or absent) \<open>drawFFTChart\<close> returns
  normally and draws the panel, the border, the title, the grid and the labels, and no
  polyline: its only lines are the grid, which is 4 horizontal and 9 vertical lines, the
  inner divisions of the panel into 5 rows and 10 columns.
\<close>

theorem drawFFTChart_empty_series:
  assumes "fftData = None \<or> fftData = Some []"
  shows "drawFFTChart fftData x y w h title color = chartFrame x y w h title @ chartLabels x y w h \<and>
    filter is_Line (drawFFTChart fftData x y w h title color) =
      [Line x (y + h / 5 * 1) (x + w) (y + h / 5 * 1), Line x (y + h / 5 * 2) (x + w) (y + h / 5 * 2),
       Line x (y + h / 5 * 3) (x + w) (y + h / 5 * 3), Line x (y + h / 5 * 4) (x + w) (y + h / 5 * 4),
       Line (x + w / 10 * 1) y (x + w / 10 * 1) (y + h), Line (x + w / 10 * 2) y (x + w / 10 * 2) (y + h),
       Line (x + w / 10 * 3) y (x + w / 10 * 3) (y + h), Line (x + w / 10 * 4) y (x + w / 10 * 4) (y + h),
       Line (x + w / 10 * 5) y (x + w / 10 * 5) (y + h), Line (x + w / 10 * 6) y (x + w / 10 * 6) (y + h),
       Line (x + w / 10 * 7) y (x + w / 10 * 7) (y + h), Line (x + w / 10 * 8) y (x + w / 10 * 8) (y + h),
       Line (x + w / 10 * 9) y (x + w / 10 * 9) (y + h)] \<and>
    {Rect x y w h ''F'', Rect x y w h ''S'', Text title (x + 5) (y - 3) NoOpt,
     Text ''Frequency (Hz)'' (x + w / 2) (y + h + 5) (Align ''center''),
     Text ''Vel'' (x - 3) (y + h / 2) (Angle 90),
     Text ''0'' x (y + h + 3) NoOpt,
     Text ''500'' (x + w / 2) (y + h + 3) (Align ''center''),
     Text ''1000'' (x + w) (y + h + 3) (Align ''right'')}
      \<subseteq> set (drawFFTChart fftData x y w h title color)"
proof -
  have d: "drawFFTChart fftData x y w h title color = chartFrame x y w h title @ chartLabels x y w h"
    using assms by (auto simp: drawFFTChart_def chartPolyline_empty)
  show ?thesis
    unfolding d
    by (simp add: chartFrame_def chartLabels_def is_Line_def upt_1_5 upt_1_10 Let_def)
qed

theorem drawFFTChart_empty_series_witness:
  "drawFFTChart (Some []) 17 45 166 80 ''FFT'' [59, 130, 246]
     = chartFrame 17 45 166 80 ''FFT'' @ chartLabels 17 45 166 80 \<and>
   Rect 17 45 166 80 ''S'' \<in> set (drawFFTChart (Some []) 17 45 166 80 ''FFT'' [59, 130, 246])"
proof -
  have h: "Some [] = None \<or> Some [] = (Some [] :: point list option)" by simp
  show ?thesis
    using drawFFTChart_empty_series [OF h, of 17 45 166 80 "''FFT''" "[59, 130, 246]"]
    by blast
qed

text \<open>
  A panel of the gallery with an empty series has 4 horizontal and 9 vertical lines, not 5
  and 10.
\<close>

theorem drawFFTChart_grid_counterexample:
  "length (filter is_horizontal (drawFFTChart (Some []) 17 45 166 80 ''FFT'' [59, 130, 246])) = 4 \<and>
   length (filter is_vertical (drawFFTChart (Some []) 17 45 166 80 ''FFT'' [59, 130, 246])) = 9"
  by (simp add: drawFFTChart_def chartPolyline_def chartFrame_def chartLabels_def
      is_horizontal_def is_vertical_def upt_1_5 upt_1_10 Let_def)

lemma fold_max_Max: "fold max xs (a::real) = Max (insert a (set xs))"
  using Max.set_eq_fold [of a xs] by simp

lemma maxAmplitude_of_Max:
  assumes "ps \<noteq> []"
  shows "maxAmplitude_of ps =
    (if Max (amplitude ` set ps) = 0 then 1 else Max (amplitude ` set ps))"
proof -
  obtain p qs where ps: "ps = p # qs" using assms by (cases ps) auto
  show ?thesis
    by (simp add: ps maxAmplitude_of_def fold_max_Max Let_def)
qed

lemma drawFFTChart_nonempty:
  assumes "ps \<noteq> []"
  shows "drawFFTChart (Some ps) x y w h title color =
      chartFrame x y w h title
      @ [SetDrawColor color, SetLineWidth 0.5]
      @ map (\<lambda>i. Line
          (x + real (i - 1) * (w / real (length ps)))
          (y + h - 5 - amplitude (ps ! (i - 1)) *
             ((h - 10) / (if Max (amplitude ` set ps) = 0 then 1 else Max (amplitude ` set ps))))
          (x + real i * (w / real (length ps)))
          (y + h - 5 - amplitude (ps ! i) *
             ((h - 10) / (if Max (amplitude ` set ps) = 0 then 1 else Max (amplitude ` set ps)))))
          [1..<length ps]
      @ chartLabels x y w h"
proof -
  have "real i - 1 = real (i - 1)" if "i \<in> set [1..<length ps]" for i
    using that by (simp add: of_nat_diff)
  then show ?thesis
    using assms
    by (simp add: drawFFTChart_def chartPolyline_def maxAmplitude_of_Max Let_def
        cong: map_cong)
qed

lemma modalPoints_nth:
  assumes "i < length data"
  shows "modalPoints data pl pt cw ch ! i =
     (spec_screenX pl cw (Max (insert 1000 (frequency ` set data))) (frequency (data ! i)),
      spec_screenY pt ch (Max (insert 0.5 (mp_amplitude ` set data))) (mp_amplitude (data ! i)))"
  using assms
  by (simp add: modalPoints_def fold_max_Max Let_def spec_screenX_def spec_screenY_def)

text \<open>
  C3, as the code has it. For a non-empty series of \<open>n\<close> points the chart of the report
  joins consecutive points by segments; the point of index \<open>i\<close> is at
  \<open>x + i * (width / n)\<close> (its place in the series, not its frequency) and at
  \<open>y + height - 5 - amplitude * ((height - 10) / maxAmplitude)\<close>, where \<open>maxAmplitude\<close> is the
  largest amplitude of that series, or 1 when that is 0, so that it is never 0. The
  on-screen chart of the modal places each point of its series by the formulas of the
  specification, inside the padded chart area, with \<open>maxFreq\<close> the largest of 1000 and the
  frequencies and \<open>maxAmplitude\<close> the largest of 0.5 and the amplitudes.
\<close>

theorem spectrum_point_placement:
  "(ps \<noteq> [] \<longrightarrow>
     drawFFTChart (Some ps) x y w h title color =
       chartFrame x y w h title
       @ [SetDrawColor color, SetLineWidth 0.5]
       @ map (\<lambda>i. Line
           (x + real (i - 1) * (w / real (length ps)))
           (y + h - 5 - amplitude (ps ! (i - 1)) *
              ((h - 10) / (if Max (amplitude ` set ps) = 0 then 1 else Max (amplitude ` set ps))))
           (x + real i * (w / real (length ps)))
           (y + h - 5 - amplitude (ps ! i) *
              ((h - 10) / (if Max (amplitude ` set ps) = 0 then 1 else Max (amplitude ` set ps)))))
           [1..<length ps]
       @ chartLabels x y w h \<and>
     (if Max (amplitude ` set ps) = 0 then 1 else Max (amplitude ` set ps)) \<noteq> 0) \<and>
   (i < length data \<longrightarrow>
     modalPoints data pl pt cw ch ! i =
       (spec_screenX pl cw (Max (insert 1000 (frequency ` set data))) (frequency (data ! i)),
        spec_screenY pt ch (Max (insert 0.5 (mp_amplitude ` set data))) (mp_amplitude (data ! i))))"
  using drawFFTChart_nonempty [of ps x y w h title color] modalPoints_nth [of i data pl pt cw ch]
  by simp

theorem spectrum_point_placement_witness:
  "[\<lparr>freq = 0, amplitude = 1\<rparr>, \<lparr>freq = 500, amplitude = 1\<rparr>] \<noteq> [] \<and>
   Line 0 5 50 5 \<in> set (drawFFTChart (Some [\<lparr>freq = 0, amplitude = 1\<rparr>, \<lparr>freq = 500, amplitude = 1\<rparr>])
                           0 0 100 80 ''FFT'' [59, 130, 246]) \<and>
   (0::nat) < length [\<lparr>frequency = 500, mp_amplitude = 1\<rparr>] \<and>
   modalPoints [\<lparr>frequency = 500, mp_amplitude = 1\<rparr>] 60 40 700 310 ! 0 = (410, 40)"
  using spectrum_point_placement [of "[\<lparr>freq = 0, amplitude = 1\<rparr>, \<lparr>freq = 500, amplitude = 1\<rparr>]"
      0 0 100 80 "''FFT''" "[59, 130, 246]" 0 "[\<lparr>frequency = 500, mp_amplitude = 1\<rparr>]" 60 40 700 310]
  by (simp add: spec_screenX_def spec_screenY_def upt_rec)

text \<open>
  A series of two points of amplitude 1, at 0 and 500 Hz as the generator spaces them, in a
  chart at the origin, 100 wide and 80 high: the segment drawn runs from (0, 5) to (50, 5),
  where the formulas of the specification, with \<open>maxFreq = 1000\<close> and \<open>maxAmplitude = 1\<close>,
  give (0, 0) and (50, 0). No segment is drawn there.
\<close>

theorem spectrum_point_placement_counterexample:
  "Line 0 5 50 5 \<in> set (drawFFTChart (Some [\<lparr>freq = 0, amplitude = 1\<rparr>, \<lparr>freq = 500, amplitude = 1\<rparr>])
                           0 0 100 80 ''FFT'' [59, 130, 246]) \<and>
   Line (spec_screenX 0 100 1000 0) (spec_screenY 0 80 1 1)
        (spec_screenX 0 100 1000 500) (spec_screenY 0 80 1 1)
     \<notin> set (drawFFTChart (Some [\<lparr>freq = 0, amplitude = 1\<rparr>, \<lparr>freq = 500, amplitude = 1\<rparr>])
               0 0 100 80 ''FFT'' [59, 130, 246])"
  by (simp add: drawFFTChart_def chartFrame_def chartPolyline_def chartLabels_def
      maxAmplitude_of_def spec_screenX_def spec_screenY_def upt_rec Let_def)

section \<open>Loops and usable values\<close>

lemma bind_Inr [simp]: "bind (Inr x) f = f x"
  by (simp add: bind_def)

lemma bind_Inl [simp]: "bind (Inl e) f = Inl e"
  by (simp add: bind_def)

lemma usable_truthy: "usable v \<Longrightarrow> truthy v \<Longrightarrow> \<exists>s. v = JStr s"
  by (cases v) auto

lemma js_or_default:
  assumes "usable a"
  shows "\<exists>s. js_or a (JStr d) = JStr s"
  using assms usable_truthy [of a] by (auto simp: js_or_def)

lemma js_or_usable: "usable a \<Longrightarrow> usable b \<Longrightarrow> usable (js_or a b)"
  by (simp add: js_or_def)

lemma js_or2_default:
  assumes "usable a" "usable b"
  shows "\<exists>s. js_or (js_or a b) (JStr d) = JStr s"
  using assms by (intro js_or_default js_or_usable)

lemma forEach_closed:
  assumes "\<And>k. k < length xs \<Longrightarrow> f (i + k) (xs ! k) (st k) = Inr (out k, st (Suc k))"
  shows "forEach f i xs (st 0) = Inr (concat (map out [0..<length xs]), st (length xs))"
  using assms
proof (induction xs arbitrary: i st out)
  case Nil
  then show ?case by simp
next
  case (Cons x xs)
  have hd: "f i x (st 0) = Inr (out 0, st (Suc 0))"
    using Cons.prems [of 0] by simp
  have tl: "forEach f (Suc i) xs ((st \<circ> Suc) 0)
      = Inr (concat (map (out \<circ> Suc) [0..<length xs]), (st \<circ> Suc) (length xs))"
  proof (rule Cons.IH)
    fix k assume "k < length xs"
    then show "f (Suc i + k) (xs ! k) ((st \<circ> Suc) k) = Inr ((out \<circ> Suc) k, (st \<circ> Suc) (Suc k))"
      using Cons.prems [of "Suc k"] by simp
  qed
  have "[0..<length (x # xs)] = 0 # map Suc [0..<length xs]"
    by (simp add: upt_conv_Cons map_Suc_upt del: upt_Suc)
  then have "concat (map out [0..<length (x # xs)]) = out 0 @ concat (map (out \<circ> Suc) [0..<length xs])"
    by (simp del: upt_Suc)
  then show ?case
    using hd tl by simp
qed

section \<open>The galleries, page by page\<close>

lemma concat_pairs_even:
  "concat (map f [0..<2 * m]) = concat (map (\<lambda>p. f (2 * p) @ f (2 * p + 1)) [0..<m])"
proof (induction m)
  case 0
  then show ?case by simp
next
  case (Suc m)
  have "2 * Suc m = Suc (Suc (2 * m))" by simp
  then show ?case using Suc by simp
qed

lemma concat_pairs:
  "concat (map f [0..<N])
     = concat (map (\<lambda>p. f (2 * p) @ (if 2 * p + 1 < N then f (2 * p + 1) else []))
                [0..<(N + 1) div 2])"
proof (cases "even N")
  case True
  then obtain m where N: "N = 2 * m" by (auto elim: evenE)
  have m: "(N + 1) div 2 = m" by (simp add: N)
  have "map (\<lambda>p. f (2 * p) @ (if 2 * p + 1 < N then f (2 * p + 1) else [])) [0..<m]
      = map (\<lambda>p. f (2 * p) @ f (2 * p + 1)) [0..<m]"
    by (rule map_cong) (auto simp: N)
  then have "concat (map (\<lambda>p. f (2 * p) @ (if 2 * p + 1 < N then f (2 * p + 1) else [])) [0..<m])
      = concat (map f [0..<2 * m])"
    by (simp only: concat_pairs_even)
  then show ?thesis
    unfolding m by (simp only: N)
next
  case False
  then obtain m where N: "N = 2 * m + 1" by (auto elim: oddE)
  have m: "(N + 1) div 2 = Suc m" by (simp add: N)
  have "map (\<lambda>p. f (2 * p) @ (if 2 * p + 1 < N then f (2 * p + 1) else [])) [0..<m]
      = map (\<lambda>p. f (2 * p) @ f (2 * p + 1)) [0..<m]"
    by (rule map_cong) (auto simp: N)
  then have "concat (map (\<lambda>p. f (2 * p) @ (if 2 * p + 1 < N then f (2 * p + 1) else [])) [0..<m])
      = concat (map f [0..<2 * m])"
    by (simp only: concat_pairs_even)
  moreover have "[0..<N] = [0..<2 * m] @ [2 * m]" by (simp add: N)
  moreover have "\<not> 2 * m + 1 < N" by (simp add: N)
  ultimately show ?thesis
    unfolding m by simp
qed

lemma concat_triples:
  "concat (map (\<lambda>k. f (3 * k) @ f (3 * k + 1) @ f (3 * k + 2)) [0..<n]) = concat (map f [0..<3 * n])"
proof (induction n)
  case 0
  then show ?case by simp
next
  case (Suc n)
  have e: "3 * Suc n = Suc (Suc (Suc (3 * n)))" by simp
  have "concat (map f [0..<3 * Suc n])
      = concat (map f [0..<3 * n]) @ f (3 * n) @ f (3 * n + 1) @ f (3 * n + 2)"
    unfolding e by simp
  then show ?case using Suc by simp
qed

text \<open>The value of \<open>pageNum\<close> after \<open>j\<close> of \<open>N\<close> charts, starting from \<open>p0\<close>.\<close>

lemma pageNum_step:
  assumes "j < N"
  shows "(if even (Suc j) \<or> Suc j = N
          then Suc (p0 + (if j = N then (j + 1) div 2 else j div 2))
          else p0 + (if j = N then (j + 1) div 2 else j div 2))
       = p0 + (if Suc j = N then (Suc j + 1) div 2 else Suc j div 2)"
  using assms by (auto elim!: evenE oddE)

lemma galleryChart_step:
  assumes "drawPageHeader env logo mn (pageWidth env) margin = Inr hdr"
    and "substring0 bid 40 = Inr idt"
  shows "galleryChart env logo mn margin N bid mult axis (j, pg, r) =
    Inr ((if even j
          then AddPage # hdr @ [SetTextColor [30, 41, 59], SetFontSize 9,
                                Text (''Bearing: '' @ idt) margin 28 NoOpt]
          else [])
         @ (drawFFTChart (Some (generateFFTData_bearing (random env) r 200 mult)) (margin + 5)
              (if even j then 45 else 145) (pageWidth env - 2 * margin - 10) 80
              (''FFT Spectrum - Velocity > ('' @ axis_letter axis @ ''-Axis)'') (chartColors axis)
            @ [SetFontSize 7, SetTextColor [100, 100, 100],
               Text (''Date: '' @ isoDate env) (margin + 5) ((if even j then 45 else 145) + 90) NoOpt])
         @ (if even (Suc j) \<or> Suc j = N
            then drawPageFooter pg (pageWidth env) (pageHeight env) margin else []),
         (Suc j, if even (Suc j) \<or> Suc j = N then Suc pg else pg, r + 200))"
  using assms
  by (simp add: galleryChart_def Let_def even_iff_mod_2_eq_zero)


lemma usable_bearingStatus:
  assumes "usable_bearing b"
  shows "\<exists>st. bearingStatus b = Inr st"
proof -
  obtain s where "js_or (js_or (b_statusName b) (b_status b)) (JStr ''satisfactory'') = JStr s"
    using assms js_or2_default unfolding usable_bearing_def by blast
  then show ?thesis by (simp add: bearingStatus_def)
qed

lemma usable_bearingId:
  assumes "usable_bearing b"
  shows "\<exists>s. substring0 (js_or (js_or (b_id b) (b_bearingId b)) (JStr d)) n = Inr s"
proof -
  obtain s where "js_or (js_or (b_id b) (b_bearingId b)) (JStr d) = JStr s"
    using assms js_or2_default unfolding usable_bearing_def by blast
  then show ?thesis by simp
qed

lemma panelAxis_simps:
  "panelAxis (3 * k) = H_axis" "panelAxis (3 * k + 1) = V_axis" "panelAxis (3 * k + 2) = A_axis"
  "panelAxis (Suc (3 * k)) = V_axis" "panelAxis (Suc (Suc (3 * k))) = A_axis"
  by (simp_all add: panelAxis_def mod_Suc)

lemma div3_simps:
  "(3 * k) div 3 = k" "(3 * k + 1) div 3 = k" "(3 * k + 2) div 3 = (k::nat)"
  "Suc (3 * k) div 3 = k" "Suc (Suc (3 * k)) div 3 = k"
  by simp_all

lemma galleryChart_out:
  assumes hdr: "drawPageHeader env logo mn (pageWidth env) margin = Inr hdr"
    and b: "usable_bearing (bs ! (j div 3))" "bearingStatus (bs ! (j div 3)) = Inr st"
    and j: "j < 3 * length bs"
  shows "galleryChart env logo mn margin (length bs * 3)
      (js_or (js_or (b_id (bs ! (j div 3))) (b_bearingId (bs ! (j div 3)))) (JStr ''Bearing''))
      (if st = ''unacceptable'' then 2.5 else if st = ''alert'' then 1.8 else 1.0)
      (panelAxis j)
      (j, p0 + (if j = 3 * length bs then (j + 1) div 2 else j div 2), r0 + 200 * j)
    = Inr (galleryOut env hdr margin bs p0 r0 j,
           (Suc j, p0 + (if Suc j = 3 * length bs then (Suc j + 1) div 2 else Suc j div 2),
            r0 + 200 * Suc j))"
proof -
  obtain idt where idt: "substring0 (js_or (js_or (b_id (bs ! (j div 3))) (b_bearingId (bs ! (j div 3))))
      (JStr ''Bearing'')) 40 = Inr idt"
    using usable_bearingId [OF b(1)] by blast
  have m: "galleryMultiplier (bs ! (j div 3))
      = (if st = ''unacceptable'' then 2.5 else if st = ''alert'' then 1.8 else 1.0)"
    by (simp add: galleryMultiplier_def b(2) text_of_def)
  have N: "length bs * 3 = 3 * length bs" by simp
  show ?thesis
    unfolding galleryChart_step [OF hdr idt] N
    using pageNum_step [OF j, of p0]
    by (simp add: galleryOut_def bearingPanel_def m idt text_of_def Let_def add.commute)
qed


lemma galleryBearing_out:
  assumes hdr: "drawPageHeader env logo mn (pageWidth env) margin = Inr hdr"
    and b: "usable_bearing (bs ! k)"
    and k: "k < length bs"
  shows "galleryBearing env logo mn margin (length bs * 3) i (bs ! k)
      (3 * k, p0 + (if 3 * k = 3 * length bs then (3 * k + 1) div 2 else (3 * k) div 2), r0 + 600 * k)
    = Inr (galleryOut env hdr margin bs p0 r0 (3 * k) @ galleryOut env hdr margin bs p0 r0 (3 * k + 1)
           @ galleryOut env hdr margin bs p0 r0 (3 * k + 2),
           (3 * Suc k,
            p0 + (if 3 * Suc k = 3 * length bs then (3 * Suc k + 1) div 2 else (3 * Suc k) div 2),
            r0 + 600 * Suc k))"
proof -
  obtain st where st: "bearingStatus (bs ! k) = Inr st"
    using usable_bearingStatus [OF b] by blast
  have j: "3 * k < 3 * length bs" "3 * k + 1 < 3 * length bs" "3 * k + 2 < 3 * length bs"
    using k by simp_all
  have r: "r0 + 600 * k = r0 + 200 * (3 * k)" by simp
  note c0 = galleryChart_out [of env logo mn margin hdr bs "3 * k" st p0 r0, unfolded div3_simps panelAxis_simps,
      OF hdr b st j(1)]
  note c1 = galleryChart_out [of env logo mn margin hdr bs "3 * k + 1" st p0 r0,
      unfolded div3_simps panelAxis_simps, OF hdr b st j(2)]
  note c2 = galleryChart_out [of env logo mn margin hdr bs "3 * k + 2" st p0 r0,
      unfolded div3_simps panelAxis_simps, OF hdr b st j(3)]
  have s1: "Suc (3 * k) = 3 * k + 1" and s2: "Suc (3 * k + 1) = 3 * k + 2"
    and s3: "Suc (3 * k + 2) = 3 * Suc k" by simp_all
  show ?thesis
    unfolding galleryBearing_def Let_def st bind_Inr forEach.simps r
    unfolding c0 s1 bind_Inr prod.case c1 s2 c2 s3
    by simp
qed

lemma gallery_bearing_out:
  assumes hdr: "drawPageHeader env logo mn (pageWidth env) margin = Inr hdr"
    and us: "\<forall>b \<in> set bs. usable_bearing b"
  shows "forEach (galleryBearing env logo mn margin (length bs * 3)) 0 bs (0, p0, r0)
     = Inr (concat (map (galleryOut env hdr margin bs p0 r0) [0..<3 * length bs]),
            (3 * length bs, p0 + (3 * length bs + 1) div 2, r0 + 600 * length bs))"
proof -
  let ?st = "\<lambda>k. (3 * k, p0 + (if 3 * k = 3 * length bs then (3 * k + 1) div 2 else (3 * k) div 2),
                  r0 + 600 * k)"
  let ?out = "\<lambda>k. galleryOut env hdr margin bs p0 r0 (3 * k) @ galleryOut env hdr margin bs p0 r0 (3 * k + 1)
           @ galleryOut env hdr margin bs p0 r0 (3 * k + 2)"
  have "forEach (galleryBearing env logo mn margin (length bs * 3)) 0 bs (?st 0)
      = Inr (concat (map ?out [0..<length bs]), ?st (length bs))"
  proof (rule forEach_closed)
    fix k assume k: "k < length bs"
    then have "usable_bearing (bs ! k)" using us by simp
    from galleryBearing_out [OF hdr this k, of "0 + k" p0 r0]
    show "galleryBearing env logo mn margin (length bs * 3) (0 + k) (bs ! k) (?st k)
        = Inr (?out k, ?st (Suc k))" .
  qed
  moreover have "?st 0 = (0, p0, r0)"
    by (cases "length bs = 0") simp_all
  moreover have "?st (length bs) = (3 * length bs, p0 + (3 * length bs + 1) div 2, r0 + 600 * length bs)"
    by simp
  ultimately show ?thesis
    by (simp only: concat_triples)
qed

lemma galleryOut_page:
  assumes hdr: "drawPageHeader env logo mn (pageWidth env) margin = Inr hdr"
    and p: "2 * p < 3 * length bs"
  shows "galleryOut env hdr margin bs p0 r0 (2 * p)
      @ (if 2 * p + 1 < 3 * length bs then galleryOut env hdr margin bs p0 r0 (2 * p + 1) else [])
    = bearingGalleryPage env logo mn margin bs p0 r0 (Suc p)"
proof -
  have e: "even (2 * p)" "\<not> even (Suc (2 * p))" "\<not> even (2 * p + 1)" "even (Suc (2 * p + 1))"
    by simp_all
  have n: "2 * p \<noteq> 3 * length bs" using p by simp
  have i: "2 * Suc p - 2 = 2 * p" "2 * Suc p - 1 = 2 * p + 1" "p0 + Suc p - 1 = p0 + p"
    "(2 * p) div 2 = p" "(2 * p + 1) div 2 = p"
    by simp_all
  show ?thesis
  proof (cases "2 * p + 1 < 3 * length bs")
    case True
    then have "Suc (2 * p) \<noteq> 3 * length bs" "2 * p + 1 \<noteq> 3 * length bs" by simp_all
    then show ?thesis
      unfolding galleryOut_def bearingGalleryPage_def i
      by (simp only: e n True if_True if_False hdr ops_of_def sum.case append_Nil append_Nil2 append_assoc
          append_Cons simp_thms)
  next
    case False
    then have "Suc (2 * p) = 3 * length bs" using p by simp
    then show ?thesis
      unfolding galleryOut_def bearingGalleryPage_def i
      by (simp only: e n False if_True if_False hdr ops_of_def sum.case append_Nil append_Nil2 append_assoc
          append_Cons simp_thms)
  qed
qed

lemma gallery_bearing_pages:
  assumes hdr: "drawPageHeader env logo mn (pageWidth env) margin = Inr hdr"
    and us: "\<forall>b \<in> set bs. usable_bearing b"
  shows "forEach (galleryBearing env logo mn margin (length bs * 3)) 0 bs (0, p0, r0)
     = Inr (concat (map (bearingGalleryPage env logo mn margin bs p0 r0)
                      [1..<Suc ((3 * length bs + 1) div 2)]),
            (3 * length bs, p0 + (3 * length bs + 1) div 2, r0 + 600 * length bs))"
proof -
  let ?N = "3 * length bs"
  have "map (\<lambda>p. galleryOut env hdr margin bs p0 r0 (2 * p)
               @ (if 2 * p + 1 < ?N then galleryOut env hdr margin bs p0 r0 (2 * p + 1) else []))
          [0..<(?N + 1) div 2]
      = map (\<lambda>p. bearingGalleryPage env logo mn margin bs p0 r0 (Suc p)) [0..<(?N + 1) div 2]"
  proof (rule map_cong [OF refl])
    fix p assume "p \<in> set [0..<(?N + 1) div 2]"
    then have "2 * p < ?N" by auto
    then show "galleryOut env hdr margin bs p0 r0 (2 * p)
               @ (if 2 * p + 1 < ?N then galleryOut env hdr margin bs p0 r0 (2 * p + 1) else [])
      = bearingGalleryPage env logo mn margin bs p0 r0 (Suc p)"
      by (rule galleryOut_page [OF hdr])
  qed
  moreover have "map (\<lambda>p. bearingGalleryPage env logo mn margin bs p0 r0 (Suc p)) [0..<(?N + 1) div 2]
      = map (bearingGalleryPage env logo mn margin bs p0 r0) [1..<Suc ((?N + 1) div 2)]"
  proof -
    have "map (bearingGalleryPage env logo mn margin bs p0 r0) [1..<Suc ((?N + 1) div 2)]
        = map (bearingGalleryPage env logo mn margin bs p0 r0) (map Suc [0..<(?N + 1) div 2])"
      by (simp only: map_Suc_upt One_nat_def)
    then show ?thesis by (simp only: map_map o_def)
  qed
  ultimately show ?thesis
    unfolding gallery_bearing_out [OF hdr us]
    by (simp only: concat_pairs [of "galleryOut env hdr margin bs p0 r0" ?N])
qed

lemma fftChart_step:
  assumes "drawPageHeader env logo (js_or (m_machineName m) (m_name m)) (pageWidth env) margin = Inr hdr"
  shows "fftChart env logo m margin N brg axis (j, pg) =
    Inr ((if even j
          then AddPage # hdr @
               [SetTextColor [30, 41, 59], SetFontSize 9,
                Text (''Area Name: '' @ js_toString env (js_or (m_areaId m) (JStr ''N/A''))) margin 28 NoOpt]
          else [])
         @ (drawFFTChart (Some (bd_fftData brg axis)) (margin + 5)
              (if even j then 45 else 145) (pageWidth env - 2 * margin - 10) 80
              (''FFT Series - '' @ bd_bearingName brg @ '' > Velocity > (''
                 @ axis_letter axis @ ''-Axis) > '' @ js_toString env (bd_date brg))
              (chartColors axis)
            @ [SetFontSize 7, SetTextColor [100, 100, 100],
               Text (''Description: '' @ bd_bearingName brg @ ''-'' @ axis_letter axis)
                 (margin + 5) ((if even j then 45 else 145) + 90) NoOpt])
         @ (if even (Suc j) \<or> Suc j = N
            then drawPageFooter pg (pageWidth env) (pageHeight env) margin else []),
         (Suc j, if even (Suc j) \<or> Suc j = N then Suc pg else pg))"
  using assms
  by (simp add: fftChart_def Let_def even_iff_mod_2_eq_zero)

lemma fftChart_out:
  assumes hdr: "drawPageHeader env logo (js_or (m_machineName m) (m_name m)) (pageWidth env) margin = Inr hdr"
    and j: "j < 3 * length bds"
  shows "fftChart env logo m margin (length bds * 3) (bds ! (j div 3)) (panelAxis j)
      (j, p0 + (if j = 3 * length bds then (j + 1) div 2 else j div 2))
    = Inr (machineOut env hdr m margin bds p0 j,
           (Suc j, p0 + (if Suc j = 3 * length bds then (Suc j + 1) div 2 else Suc j div 2)))"
proof -
  have N: "length bds * 3 = 3 * length bds" by simp
  show ?thesis
    unfolding fftChart_step [OF hdr] N
    using pageNum_step [OF j, of p0]
    by (simp add: machineOut_def machinePanel_def Let_def)
qed

lemma fftBearing_out:
  assumes hdr: "drawPageHeader env logo (js_or (m_machineName m) (m_name m)) (pageWidth env) margin = Inr hdr"
    and k: "k < length bds"
  shows "forEach (\<lambda>aIdx axis. fftChart env logo m margin (length bds * 3) (bds ! k) axis) 0
      [H_axis, V_axis, A_axis]
      (3 * k, p0 + (if 3 * k = 3 * length bds then (3 * k + 1) div 2 else (3 * k) div 2))
    = Inr (machineOut env hdr m margin bds p0 (3 * k) @ machineOut env hdr m margin bds p0 (3 * k + 1)
           @ machineOut env hdr m margin bds p0 (3 * k + 2),
           (3 * Suc k,
            p0 + (if 3 * Suc k = 3 * length bds then (3 * Suc k + 1) div 2 else (3 * Suc k) div 2)))"
proof -
  have j: "3 * k < 3 * length bds" "3 * k + 1 < 3 * length bds" "3 * k + 2 < 3 * length bds"
    using k by simp_all
  note c0 = fftChart_out [of env logo m margin hdr "3 * k" bds p0, unfolded div3_simps panelAxis_simps,
      OF hdr j(1)]
  note c1 = fftChart_out [of env logo m margin hdr "3 * k + 1" bds p0, unfolded div3_simps panelAxis_simps,
      OF hdr j(2)]
  note c2 = fftChart_out [of env logo m margin hdr "3 * k + 2" bds p0, unfolded div3_simps panelAxis_simps,
      OF hdr j(3)]
  have s1: "Suc (3 * k) = 3 * k + 1" and s2: "Suc (3 * k + 1) = 3 * k + 2"
    and s3: "Suc (3 * k + 2) = 3 * Suc k" by simp_all
  show ?thesis
    unfolding forEach.simps
    unfolding c0 s1 bind_Inr prod.case c1 s2 c2 s3
    by simp
qed

lemma fftGallery_out:
  assumes hdr: "drawPageHeader env logo (js_or (m_machineName m) (m_name m)) (pageWidth env) margin = Inr hdr"
  shows "fftGallery env logo m margin bds p0
     = Inr (concat (map (machineOut env hdr m margin bds p0) [0..<3 * length bds]),
            (3 * length bds, p0 + (3 * length bds + 1) div 2))"
proof -
  let ?st = "\<lambda>k. (3 * k, p0 + (if 3 * k = 3 * length bds then (3 * k + 1) div 2 else (3 * k) div 2))"
  let ?out = "\<lambda>k. machineOut env hdr m margin bds p0 (3 * k) @ machineOut env hdr m margin bds p0 (3 * k + 1)
           @ machineOut env hdr m margin bds p0 (3 * k + 2)"
  have "forEach (\<lambda>bIdx brg. forEach (\<lambda>aIdx axis. fftChart env logo m margin (length bds * 3) brg axis) 0
            [H_axis, V_axis, A_axis]) 0 bds (?st 0)
      = Inr (concat (map ?out [0..<length bds]), ?st (length bds))"
  proof (rule forEach_closed)
    fix k assume k: "k < length bds"
    from fftBearing_out [OF hdr k, of p0]
    show "forEach (\<lambda>aIdx axis. fftChart env logo m margin (length bds * 3) (bds ! k) axis) 0
            [H_axis, V_axis, A_axis] (?st k)
        = Inr (?out k, ?st (Suc k))" .
  qed
  moreover have "?st 0 = (0, p0)"
    by (cases "length bds = 0") simp_all
  moreover have "?st (length bds) = (3 * length bds, p0 + (3 * length bds + 1) div 2)"
    by simp
  ultimately show ?thesis
    unfolding fftGallery_def
    by (simp only: concat_triples)
qed

lemma machineOut_page:
  assumes hdr: "drawPageHeader env logo (js_or (m_machineName m) (m_name m)) (pageWidth env) margin = Inr hdr"
    and p: "2 * p < 3 * length bds"
  shows "machineOut env hdr m margin bds p0 (2 * p)
      @ (if 2 * p + 1 < 3 * length bds then machineOut env hdr m margin bds p0 (2 * p + 1) else [])
    = machineGalleryPage env logo m margin bds p0 (Suc p)"
proof -
  have e: "even (2 * p)" "\<not> even (Suc (2 * p))" "\<not> even (2 * p + 1)" "even (Suc (2 * p + 1))"
    by simp_all
  have n: "2 * p \<noteq> 3 * length bds" using p by simp
  have i: "2 * Suc p - 2 = 2 * p" "2 * Suc p - 1 = 2 * p + 1" "p0 + Suc p - 1 = p0 + p"
    "(2 * p) div 2 = p" "(2 * p + 1) div 2 = p"
    by simp_all
  show ?thesis
  proof (cases "2 * p + 1 < 3 * length bds")
    case True
    then have "Suc (2 * p) \<noteq> 3 * length bds" "2 * p + 1 \<noteq> 3 * length bds" by simp_all
    then show ?thesis
      unfolding machineOut_def machineGalleryPage_def i
      by (simp only: e n True if_True if_False hdr ops_of_def sum.case append_Nil append_Nil2
          append_assoc append_Cons simp_thms)
  next
    case False
    then have "Suc (2 * p) = 3 * length bds" using p by simp
    then show ?thesis
      unfolding machineOut_def machineGalleryPage_def i
      by (simp only: e n False if_True if_False hdr ops_of_def sum.case append_Nil append_Nil2
          append_assoc append_Cons simp_thms)
  qed
qed

lemma fftGallery_pages:
  assumes hdr: "drawPageHeader env logo (js_or (m_machineName m) (m_name m)) (pageWidth env) margin = Inr hdr"
  shows "fftGallery env logo m margin bds p0
     = Inr (concat (map (machineGalleryPage env logo m margin bds p0)
                      [1..<Suc ((3 * length bds + 1) div 2)]),
            (3 * length bds, p0 + (3 * length bds + 1) div 2))"
proof -
  let ?N = "3 * length bds"
  have "map (\<lambda>p. machineOut env hdr m margin bds p0 (2 * p)
               @ (if 2 * p + 1 < ?N then machineOut env hdr m margin bds p0 (2 * p + 1) else []))
          [0..<(?N + 1) div 2]
      = map (\<lambda>p. machineGalleryPage env logo m margin bds p0 (Suc p)) [0..<(?N + 1) div 2]"
  proof (rule map_cong [OF refl])
    fix p assume "p \<in> set [0..<(?N + 1) div 2]"
    then have "2 * p < ?N" by auto
    then show "machineOut env hdr m margin bds p0 (2 * p)
               @ (if 2 * p + 1 < ?N then machineOut env hdr m margin bds p0 (2 * p + 1) else [])
      = machineGalleryPage env logo m margin bds p0 (Suc p)"
      by (rule machineOut_page [OF hdr])
  qed
  moreover have "map (\<lambda>p. machineGalleryPage env logo m margin bds p0 (Suc p)) [0..<(?N + 1) div 2]
      = map (machineGalleryPage env logo m margin bds p0) [1..<Suc ((?N + 1) div 2)]"
  proof -
    have "map (machineGalleryPage env logo m margin bds p0) [1..<Suc ((?N + 1) div 2)]
        = map (machineGalleryPage env logo m margin bds p0) (map Suc [0..<(?N + 1) div 2])"
      by (simp only: map_Suc_upt One_nat_def)
    then show ?thesis by (simp only: map_map o_def)
  qed
  ultimately show ?thesis
    unfolding fftGallery_out [OF hdr]
    by (simp only: concat_pairs [of "machineOut env hdr m margin bds p0" ?N])
qed

lemma drawPageHeader_usable:
  assumes "usable mn"
  shows "\<exists>hdr. drawPageHeader env logo mn pw margin = Inr hdr \<and> AddPage \<notin> set hdr"
proof (cases "truthy mn")
  case True
  then obtain s where "mn = JStr s" using assms usable_truthy by blast
  then show ?thesis
    by (auto simp: drawPageHeader_def split: option.splits)
next
  case False
  then show ?thesis
    by (auto simp: drawPageHeader_def split: option.splits)
qed

lemma drawFFTChart_no_AddPage: "AddPage \<notin> set (drawFFTChart d x y w h t c)"
  by (auto simp: drawFFTChart_def chartFrame_def chartPolyline_def chartLabels_def Let_def
      split: option.splits)

lemma drawPageFooter_no_AddPage: "AddPage \<notin> set (drawPageFooter n pw ph mg)"
  by (simp add: drawPageFooter_def)

lemma bearingGalleryPage_one_page:
  assumes "usable mn"
  shows "\<exists>rest. bearingGalleryPage env logo mn margin bs p0 r0 k = AddPage # rest \<and> AddPage \<notin> set rest"
proof -
  obtain hdr where "drawPageHeader env logo mn (pageWidth env) margin = Inr hdr" "AddPage \<notin> set hdr"
    using drawPageHeader_usable [OF assms] by blast
  then show ?thesis
    by (simp add: bearingGalleryPage_def bearingPanel_def ops_of_def drawFFTChart_no_AddPage
        drawPageFooter_no_AddPage Let_def)
qed

lemma machineGalleryPage_one_page:
  assumes "usable (js_or (m_machineName m) (m_name m))"
  shows "\<exists>rest. machineGalleryPage env logo m margin bds p0 k = AddPage # rest \<and> AddPage \<notin> set rest"
proof -
  obtain hdr where "drawPageHeader env logo (js_or (m_machineName m) (m_name m)) (pageWidth env) margin = Inr hdr"
    "AddPage \<notin> set hdr"
    using drawPageHeader_usable [OF assms] by blast
  then show ?thesis
    by (simp add: machineGalleryPage_def machinePanel_def ops_of_def drawFFTChart_no_AddPage
        drawPageFooter_no_AddPage Let_def)
qed

text \<open>One pass of the gallery loop of the bearing report, call by call.\<close>

lemma usable_text_of:
  assumes "usable_bearing b"
  shows "bearingStatus b = Inr (text_of (bearingStatus b))"
    and "substring0 (js_or (js_or (b_id b) (b_bearingId b)) (JStr d)) n
       = Inr (text_of (substring0 (js_or (js_or (b_id b) (b_bearingId b)) (JStr d)) n))"
  using usable_bearingStatus [OF assms] usable_bearingId [OF assms, of d n]
  by (auto simp: text_of_def)

lemma usable_ops_of:
  assumes "usable mn"
  shows "drawPageHeader env logo mn pw margin = Inr (ops_of (drawPageHeader env logo mn pw margin))"
  using drawPageHeader_usable [OF assms, of env logo pw margin]
  by (auto simp: ops_of_def)

lemma galleryBearing_charts:
  assumes hdr: "drawPageHeader env logo mn (pageWidth env) margin = Inr hdr"
    and st: "bearingStatus b = Inr st"
    and idt: "substring0 (js_or (js_or (b_id b) (b_bearingId b)) (JStr ''Bearing'')) 40 = Inr idt"
  shows "galleryBearing env logo mn margin N bIdx b (j, pg, r) =
    (let mult = (if st = ''unacceptable'' then 2.5 else if st = ''alert'' then 1.8 else 1.0);
         top = (\<lambda>c. if even c
                  then AddPage # hdr @ [SetTextColor [30, 41, 59], SetFontSize 9,
                                        Text (''Bearing: '' @ idt) margin 28 NoOpt]
                  else []);
         chart = (\<lambda>a axis c.
                  drawFFTChart (Some (generateFFTData_bearing (random env) (r + 200 * a) 200 mult))
                    (margin + 5) (if even c then 45 else 145) (pageWidth env - 2 * margin - 10) 80
                    (''FFT Spectrum - Velocity > ('' @ axis_letter axis @ ''-Axis)'') (chartColors axis)
                  @ [SetFontSize 7, SetTextColor [100, 100, 100],
                     Text (''Date: '' @ isoDate env) (margin + 5) ((if even c then 45 else 145) + 90)
                       NoOpt]);
         ends = (\<lambda>c. even c \<or> c = N);
         foot = (\<lambda>c p. if ends c then drawPageFooter p (pageWidth env) (pageHeight env) margin
                        else []);
         pg1 = (if ends (j + 1) then pg + 1 else pg);
         pg2 = (if ends (j + 2) then pg1 + 1 else pg1);
         pg3 = (if ends (j + 3) then pg2 + 1 else pg2)
     in Inr (top j @ chart 0 H_axis j @ foot (j + 1) pg
             @ top (j + 1) @ chart 1 V_axis (j + 1) @ foot (j + 2) pg1
             @ top (j + 2) @ chart 2 A_axis (j + 2) @ foot (j + 3) pg2,
             (j + 3, pg3, r + 600)))"
proof -
  have s: "Suc (Suc j) = j + 2" "Suc (Suc (Suc j)) = j + 3" "Suc j = j + 1" by simp_all
  show ?thesis
    unfolding galleryBearing_def Let_def st bind_Inr forEach.simps
    unfolding galleryChart_step [OF hdr idt] bind_Inr prod.case
    by (simp add: numeral_3_eq_3 add.commute)
qed

section \<open>The tables, row by row\<close>

lemma getStatusSeverity_total: "\<exists>sev. getStatusSeverity (JStr s) = Inr sev"
  using getStatusSeverity_Str [of s] by blast

lemma texts_simps [simp]:
  "texts [] = []"
  "texts (Text s x y opt # cs) = s # texts cs"
  "texts (SetFillColor c1 # cs) = texts cs"
  "texts (SetDrawColor c1 # cs) = texts cs"
  "texts (SetTextColor c1 # cs) = texts cs"
  "texts (SetLineWidth lw # cs) = texts cs"
  "texts (SetFontSize n # cs) = texts cs"
  "texts (SetFont f1 f2 # cs) = texts cs"
  "texts (Rect x y w h st # cs) = texts cs"
  "texts (Line x1 y1 x2 y2 # cs) = texts cs"
  "texts (AddPage # cs) = texts cs"
  "texts (as @ bs) = texts as @ texts bs"
  by (simp_all add: texts_def)

lemma bearingRow_usable:
  assumes "usable_bearing b"
  shows "\<exists>cells. bearingRow env margin bIdx b (y, r) = Inr (cells, (y + rowHeight, r + 3)) \<and>
     texts cells =
       [text_of (substring0 (js_or (js_or (b_id b) (b_bearingId b))
                   (JStr (''Bearing-'' @ string_of_nat (bIdx + 1)))) 25),
        text_of (bearingStatus b),
        toFixed env (1.5 + random env r * 2) 2,
        toFixed env (0.1 + random env (r + 1) * 0.2) 3,
        toFixed env (25 + random env (r + 2) * 10) 1]"
proof -
  obtain st where st: "bearingStatus b = Inr st"
    using usable_bearingStatus [OF assms] by blast
  obtain idt where idt: "substring0 (js_or (js_or (b_id b) (b_bearingId b))
                   (JStr (''Bearing-'' @ string_of_nat (bIdx + 1)))) 25 = Inr idt"
    using usable_bearingId [OF assms] by blast
  obtain sev where sev: "getStatusSeverity (JStr st) = Inr sev"
    using getStatusSeverity_total by blast
  show ?thesis
    unfolding bearingRow_def Let_def prod.case st idt bind_Inr
    by (simp add: sev text_of_def colWidths_def)
qed

lemma bearingRow_row_of:
  assumes "usable_bearing b"
  shows "bearingRow env margin bIdx b (y, r)
     = Inr (row_of (bearingRow env margin bIdx b (y, r)), (y + rowHeight, r + 3))"
  using bearingRow_usable [OF assms, of env margin bIdx y r]
  by (auto simp: row_of_def)

lemma bearingRows_closed:
  assumes "\<forall>b \<in> set bs. usable_bearing b"
  shows "forEach (bearingRow env margin) 0 bs (y0, r0)
     = Inr (concat (map (\<lambda>k. row_of (bearingRow env margin k (bs ! k)
                                         (y0 + rowHeight * real k, r0 + 3 * k))) [0..<length bs]),
            (y0 + rowHeight * real (length bs), r0 + 3 * length bs))"
proof -
  let ?st = "\<lambda>k. (y0 + rowHeight * real k, r0 + 3 * k)"
  have "forEach (bearingRow env margin) 0 bs (?st 0)
     = Inr (concat (map (\<lambda>k. row_of (bearingRow env margin k (bs ! k) (?st k))) [0..<length bs]),
            ?st (length bs))"
  proof (rule forEach_closed)
    fix k assume "k < length bs"
    then have u: "usable_bearing (bs ! k)" using assms by simp
    have "?st (Suc k) = (y0 + rowHeight * real k + rowHeight, r0 + 3 * k + 3)"
      by (simp add: algebra_simps)
    then show "bearingRow env margin (0 + k) (bs ! k) (?st k)
        = Inr (row_of (bearingRow env margin k (bs ! k) (?st k)), ?st (Suc k))"
      using bearingRow_row_of [OF u, of env margin k "y0 + rowHeight * real k" "r0 + 3 * k"]
      by (simp only: add_0)
  qed
  then show ?thesis by simp
qed


lemma vibrationRow_usable:
  assumes "bd_date brg = JStr dt"
  shows "\<exists>cells. vibrationRow env margin bIdx brg aIdx axis y = Inr (cells, y + rowHeight) \<and>
     texts cells =
       [if aIdx = 0 then bd_bearingName brg else [], if aIdx = 0 then dt else [],
        axis_letter axis, met_vel (bd_metrics brg axis), met_acc (bd_metrics brg axis),
        met_env (bd_metrics brg axis), ''-'']"
  unfolding vibrationRow_def Let_def
  by (simp add: assms vibColWidths_def)

lemma vibrationRow_row_of:
  assumes "bd_date brg = JStr dt"
  shows "vibrationRow env margin bIdx brg aIdx axis y
     = Inr (row_of (vibrationRow env margin bIdx brg aIdx axis y), y + rowHeight)"
  using vibrationRow_usable [OF assms, of env margin bIdx aIdx axis y]
  by (auto simp: row_of_def)

lemma vibrationBearing_closed:
  assumes "bd_date brg = JStr dt"
  shows "forEach (vibrationRow env margin bIdx brg) 0 [H_axis, V_axis, A_axis] y
     = Inr (row_of (vibrationRow env margin bIdx brg 0 H_axis y)
            @ row_of (vibrationRow env margin bIdx brg 1 V_axis (y + rowHeight))
            @ row_of (vibrationRow env margin bIdx brg 2 A_axis (y + rowHeight * 2)),
            y + rowHeight * 3)"
proof -
  note r0 = vibrationRow_row_of [OF assms, of env margin bIdx 0 H_axis y]
  note r1 = vibrationRow_row_of [OF assms, of env margin bIdx 1 V_axis "y + rowHeight"]
  note r2 = vibrationRow_row_of [OF assms, of env margin bIdx 2 A_axis "y + rowHeight * 2"]
  have e: "y + rowHeight + rowHeight = y + rowHeight * 2"
    "y + rowHeight * 2 + rowHeight = y + rowHeight * 3" by simp_all
  have "forEach (vibrationRow env margin bIdx brg) 0 [H_axis, V_axis, A_axis] y
     = bind (vibrationRow env margin bIdx brg 0 H_axis y) (\<lambda>(out, s').
         bind (bind (vibrationRow env margin bIdx brg 1 V_axis s') (\<lambda>(out1, s1).
                 bind (bind (vibrationRow env margin bIdx brg 2 A_axis s1) (\<lambda>(out2, s2).
                         Inr (out2 @ [], s2))) (\<lambda>(out', s''). Inr (out1 @ out', s''))))
           (\<lambda>(out', s''). Inr (out @ out', s'')))"
    by (simp add: numeral_2_eq_2)
  also have "\<dots> = Inr (row_of (vibrationRow env margin bIdx brg 0 H_axis y)
            @ row_of (vibrationRow env margin bIdx brg 1 V_axis (y + rowHeight))
            @ row_of (vibrationRow env margin bIdx brg 2 A_axis (y + rowHeight * 2)),
            y + rowHeight * 3)"
    apply (subst r0)
    apply (simp only: bind_Inr prod.case)
    apply (subst r1)
    apply (simp only: bind_Inr prod.case e)
    apply (subst r2)
    apply (simp only: bind_Inr prod.case e append_Nil2)
    done
  finally show ?thesis .
qed

lemma vibrationRows_closed:
  assumes "\<forall>brg \<in> set bds. \<exists>dt. bd_date brg = JStr dt"
  shows "vibrationRows env margin bds y0
     = Inr (concat (map (\<lambda>j. row_of (vibrationRow env margin (j div 3) (bds ! (j div 3)) (j mod 3)
                                        (panelAxis j) (y0 + rowHeight * real j)))
                      [0..<3 * length bds]),
            y0 + rowHeight * real (3 * length bds))"
proof -
  let ?row = "\<lambda>j. row_of (vibrationRow env margin (j div 3) (bds ! (j div 3)) (j mod 3)
                                        (panelAxis j) (y0 + rowHeight * real j))"
  let ?st = "\<lambda>k. y0 + rowHeight * real (3 * k)"
  have "forEach (\<lambda>bIdx brg. forEach (vibrationRow env margin bIdx brg) 0 [H_axis, V_axis, A_axis])
          0 bds (?st 0)
      = Inr (concat (map (\<lambda>k. ?row (3 * k) @ ?row (3 * k + 1) @ ?row (3 * k + 2)) [0..<length bds]),
             ?st (length bds))"
  proof (rule forEach_closed)
    fix k assume "k < length bds"
    then have "bds ! k \<in> set bds" by simp
    then obtain dt where dt: "bd_date (bds ! k) = JStr dt" using assms by blast
    have m: "(3 * k) mod 3 = 0" "(3 * k + 1) mod 3 = 1" "(3 * k + 2) mod 3 = 2"
      by (simp_all add: mod_Suc)
    have y: "?st k + rowHeight = y0 + rowHeight * real (3 * k + 1)"
      "?st k + rowHeight * 2 = y0 + rowHeight * real (3 * k + 2)"
      "?st k + rowHeight * 3 = ?st (Suc k)"
      by (simp_all add: algebra_simps)
    show "forEach (vibrationRow env margin (0 + k) (bds ! k)) 0 [H_axis, V_axis, A_axis] (?st k)
      = Inr (?row (3 * k) @ ?row (3 * k + 1) @ ?row (3 * k + 2), ?st (Suc k))"
      unfolding vibrationBearing_closed [OF dt] y
      by (simp only: div3_simps m panelAxis_simps add_0)
  qed
  moreover have "?st 0 = y0" by simp
  moreover have "concat (map (\<lambda>k. ?row (3 * k) @ ?row (3 * k + 1) @ ?row (3 * k + 2)) [0..<length bds])
      = concat (map ?row [0..<3 * length bds])"
    by (rule concat_triples)
  ultimately show ?thesis
    unfolding vibrationRows_def by metis
qed

lemma mockBearings_length: "length (fst (mockBearings env m ns r)) = length ns"
  by (induction ns arbitrary: r) (simp_all add: split_beta Let_def)

lemma mockBearing_date:
  "bd_date (fst (mockBearing env m n r)) = js_or (m_date m) (JStr (isoDate env))"
  by (simp add: mockBearing_def Let_def)

lemma mockBearings_date:
  "brg \<in> set (fst (mockBearings env m ns r)) \<Longrightarrow> bd_date brg = js_or (m_date m) (JStr (isoDate env))"
proof (induction ns arbitrary: r)
  case Nil
  then show ?case by simp
next
  case (Cons n ns)
  then show ?case
    using mockBearing_date [of env m n r]
    by (auto simp: split_beta Let_def)
qed

lemma generateMockBearingData_length:
  "length (fst (generateMockBearingData env m r)) = 4"
  unfolding generateMockBearingData_def mockBearings_length by simp

lemma generateMockBearingData_date:
  assumes "usable (m_date m)" "brg \<in> set (fst (generateMockBearingData env m r))"
  shows "\<exists>dt. bd_date brg = JStr dt"
proof -
  have "bd_date brg = js_or (m_date m) (JStr (isoDate env))"
    using assms(2) unfolding generateMockBearingData_def by (rule mockBearings_date)
  then show ?thesis
    using js_or_default [OF assms(1), of "isoDate env"] by simp
qed

lemma texts_concat_length:
  assumes "\<And>x. x \<in> set xs \<Longrightarrow> length (texts (f x)) = n"
  shows "length (texts (concat (map f xs))) = n * length xs"
  using assms by (induction xs) simp_all

section \<open>The bearing report on usable input\<close>

lemma usable_machineName:
  assumes "usable_machine m"
  shows "\<exists>nm. machineName_of m = JStr nm"
  using assms js_or2_default unfolding usable_machine_def machineName_of_def by blast

lemma usable_machineStatus:
  assumes "usable_machine m"
  shows "\<exists>st. machineStatus m = Inr st"
proof -
  obtain s where "js_or (js_or (m_statusName m) (m_status m)) (JStr ''normal'') = JStr s"
    using assms js_or2_default unfolding usable_machine_def by blast
  then show ?thesis by (simp add: machineStatus_def)
qed

lemma usable_details:
  assumes "usable_machine m"
  shows "\<exists>s1 s2 s3 s4 s5. details m =
     [(''Machine Name'', JStr s1), (''Machine ID'', JStr s2), (''Customer ID'', JStr s3),
      (''Area ID'', JStr s4), (''Type'', JStr s5), (''Standard'', JStr ''ISO 10816-3'')]"
proof -
  obtain s1 where "machineName_of m = JStr s1" using usable_machineName [OF assms] by blast
  moreover obtain s2 where "js_or (js_or (m_machineId m) (m_id m)) (JStr ''N/A'') = JStr s2"
    using assms js_or2_default unfolding usable_machine_def by blast
  moreover obtain s3 where "js_or (m_customerId m) (JStr ''N/A'') = JStr s3"
    using assms js_or_default unfolding usable_machine_def by blast
  moreover obtain s4 where "js_or (m_areaId m) (JStr ''N/A'') = JStr s4"
    using assms js_or_default unfolding usable_machine_def by blast
  moreover obtain s5 where "js_or (m_type m) (JStr ''OFFLINE'') = JStr s5"
    using assms js_or_default unfolding usable_machine_def by blast
  ultimately show ?thesis by (simp add: details_def)
qed

lemma machineDetails_usable:
  assumes "usable_machine m"
  shows "\<exists>calls. machineDetails env m margin cw = Inr calls"
proof -
  obtain s1 s2 s3 s4 s5 where d: "details m =
     [(''Machine Name'', JStr s1), (''Machine ID'', JStr s2), (''Customer ID'', JStr s3),
      (''Area ID'', JStr s4), (''Type'', JStr s5), (''Standard'', JStr ''ISO 10816-3'')]"
    using usable_details [OF assms] by blast
  show ?thesis
    unfolding machineDetails_def Let_def d
    by simp
qed

lemma bearingTableHeader_total: "\<exists>calls. bearingTableHeader n margin = Inr calls"
  unfolding bearingTableHeader_def Let_def colWidths_def
  by simp

lemma usable_reportFileName:
  assumes "machineName = JStr nm" "\<And>b. brg = Some b \<Longrightarrow> usable_bearing b"
  shows "\<exists>fileName. reportFileName env machineName single brg = Inr fileName"
proof (cases brg)
  case None
  then show ?thesis by (simp add: reportFileName_def assms(1))
next
  case (Some b)
  then obtain s where "substring0 (js_or (js_or (b_id b) (b_bearingId b)) (JStr ''bearing'')) 20 = Inr s"
    using usable_bearingId [OF assms(2)] by blast
  then show ?thesis by (simp add: reportFileName_def assms(1) Some)
qed

lemma usable_bearingsToReport:
  assumes "\<forall>b \<in> set bearings. usable_bearing b" "\<And>b. brg = Some b \<Longrightarrow> usable_bearing b"
  shows "\<forall>b \<in> set (bearingsToReport single brg bearings). usable_bearing b"
  using assms by (auto simp: bearingsToReport_def split: option.splits)

lemma reportBody_usable:
  assumes m: "usable_machine m"
    and bs: "\<forall>b \<in> set bearings. usable_bearing b"
    and b: "\<And>b. brg = Some b \<Longrightarrow> usable_bearing b"
  shows "reportBody env logo m brg bearings single
     = Inr (text_of (reportFileName env (machineName_of m) single brg),
            reportPages env logo m (bearingsToReport single brg bearings) single)"
proof -
  let ?bs = "bearingsToReport single brg bearings"
  have ubs: "\<forall>b \<in> set ?bs. usable_bearing b"
    using usable_bearingsToReport [OF bs b] .
  obtain nm where nm: "machineName_of m = JStr nm"
    using usable_machineName [OF m] by blast
  obtain st where st: "machineStatus m = Inr st"
    using usable_machineStatus [OF m] by blast
  obtain sev where sev: "getStatusSeverity (JStr st) = Inr sev"
    using getStatusSeverity_total by blast
  obtain hdr where hdr: "drawPageHeader env logo (JStr nm) (pageWidth env) 12 = Inr hdr"
    using drawPageHeader_usable [of "JStr nm" env logo "pageWidth env" 12] by auto
  obtain det where det: "machineDetails env m 12 (pageWidth env - 2 * 12) = Inr det"
    using machineDetails_usable [OF m] by blast
  obtain th where th: "bearingTableHeader (length ?bs) 12 = Inr th"
    using bearingTableHeader_total by blast
  obtain fn where fn: "reportFileName env (JStr nm) single brg = Inr fn"
    using usable_reportFileName [OF refl b] by blast
  note rows = bearingRows_closed [OF ubs, of env 12 97 0]
  note gal = gallery_bearing_pages [OF hdr ubs, of "1 + 1" "0 + 3 * length ?bs"]
  have ms: "machineSeverity m = Inr sev"
    by (simp add: machineSeverity_def st sev)
  show ?thesis
    unfolding reportBody_def Let_def nm st sev hdr det th fn bind_Inr rows gal prod.case
    unfolding reportPages_def reportPage1_def bearingTableRows_def nm st hdr det th fn ms
    by (simp add: ops_of_def text_of_def sev_of_def numeral_2_eq_2 del: upt_Suc)
qed

lemma generatePDFReport_saved:
  assumes m: "usable_machine m"
    and bs: "\<forall>b \<in> set bearings. usable_bearing b"
    and b: "\<And>b. brg = Some b \<Longrightarrow> usable_bearing b"
  shows "generatePDFReport env logo (Some m) brg bearings single
     = Saved (text_of (reportFileName env (machineName_of m) single brg))
         (reportPages env logo m (bearingsToReport single brg bearings) single)"
  by (simp add: generatePDFReport_def reportBody_usable [OF m bs b])

lemma bearingRow_status_cell:
  assumes "usable_bearing b"
  shows "SetTextColor (bg (SEVERITY_COLORS (sev_of (bearingSeverity b))))
           \<in> set (row_of (bearingRow env margin bIdx b (y, r))) \<and>
         Text (text_of (bearingStatus b)) (margin + 60 + 2) (y + 5) NoOpt
           \<in> set (row_of (bearingRow env margin bIdx b (y, r)))"
proof -
  obtain st where st: "bearingStatus b = Inr st"
    using usable_bearingStatus [OF assms] by blast
  obtain idt where idt: "substring0 (js_or (js_or (b_id b) (b_bearingId b))
                   (JStr (''Bearing-'' @ string_of_nat (bIdx + 1)))) 25 = Inr idt"
    using usable_bearingId [OF assms] by blast
  obtain sev where sev: "getStatusSeverity (JStr st) = Inr sev"
    using getStatusSeverity_total by blast
  have bsv: "bearingSeverity b = Inr sev"
    by (simp add: bearingSeverity_def st sev)
  show ?thesis
    unfolding bearingRow_def Let_def prod.case st idt bind_Inr bsv
    by (simp add: sev text_of_def sev_of_def row_of_def colWidths_def)
qed

lemma machineStatus_numeric:
  assumes "\<not> truthy (m_statusName m)" "m_status m = JNum (Fin x)" "x \<noteq> 0"
  shows "generatePDFReport env logo (Some m) brg bearings single = Failed TypeError"
proof -
  have "machineStatus m = Inl TypeError"
    using assms by (simp add: machineStatus_def js_or_def)
  then show ?thesis
    by (simp add: generatePDFReport_def reportBody_def)
qed

section \<open>The synthetic spectra, point by point\<close>

lemma peak_index:
  "\<bar>real i / 200 * 1000 - 50\<bar> < 5 \<longleftrightarrow> i = 10"
  "\<bar>real i / 200 * 1000 - 100\<bar> < 5 \<longleftrightarrow> i = 20"
  "\<bar>real i / 200 * 1000 - 150\<bar> < 5 \<longleftrightarrow> i = 30"
  "\<bar>real i / 200 * 1000 - 180\<bar> < 10 \<longleftrightarrow> i = 35 \<or> i = 36 \<or> i = 37"
  "\<bar>real i / 200 * 1000 - 360\<bar> < 10 \<longleftrightarrow> i = 71 \<or> i = 72 \<or> i = 73"
  by (auto simp: abs_less_iff)

lemma peaks_factor:
  "(let a0 = x * 0.02 * m;
        a1 = (if c1 then a0 + 0.3 * m else a0);
        a2 = (if c2 then a1 + 0.15 * m else a1);
        a3 = (if c3 then a2 + 0.08 * m else a2);
        a4 = (if c4 then a3 + 0.05 * m else a3);
        a5 = (if c5 then a4 + 0.03 * m else a4)
    in a5)
   = (m::real) * (0.02 * x + (if c1 then 0.3 else 0) + (if c2 then 0.15 else 0)
        + (if c3 then 0.08 else 0) + (if c4 then 0.05 else 0) + (if c5 then 0.03 else 0))"
  "(let a0 = x * 0.02 * m;
        a1 = (if c1 then a0 + 0.3 * m else a0);
        a2 = (if c2 then a1 + 0.15 * m else a1);
        a3 = (if c3 then a2 + 0.08 * m else a2);
        a4 = (if c4 then a3 + 0.05 * m else a3)
    in a4)
   = (m::real) * (0.02 * x + (if c1 then 0.3 else 0) + (if c2 then 0.15 else 0)
        + (if c3 then 0.08 else 0) + (if c4 then 0.05 else 0))"
  by (simp_all add: Let_def algebra_simps)

lemma generateFFTData_nth_any:
  assumes "i < n"
  shows "generateFFTData rand r n m ! i =
     \<lparr>freq = real i / real n * 1000,
      amplitude = m * (0.02 * rand (r + i)
        + (if \<bar>real i / real n * 1000 - 50\<bar> < 5 then 0.3 else 0)
        + (if \<bar>real i / real n * 1000 - 100\<bar> < 5 then 0.15 else 0)
        + (if \<bar>real i / real n * 1000 - 150\<bar> < 5 then 0.08 else 0)
        + (if \<bar>real i / real n * 1000 - 180\<bar> < 10 then 0.05 else 0)
        + (if \<bar>real i / real n * 1000 - 360\<bar> < 10 then 0.03 else 0))\<rparr>"
proof -
  have i: "[0..<n] ! i = i" "i < length [0..<n]" using assms by simp_all
  show ?thesis
    unfolding generateFFTData_def nth_map [OF i(2)] i(1)
    by (simp only: Let_def peaks_factor(1) [unfolded Let_def])
qed

lemma generateFFTData_bearing_nth_any:
  assumes "i < n"
  shows "generateFFTData_bearing rand r n m ! i =
     \<lparr>freq = real i / real n * 1000,
      amplitude = m * (0.02 * rand (r + i)
        + (if \<bar>real i / real n * 1000 - 50\<bar> < 5 then 0.3 else 0)
        + (if \<bar>real i / real n * 1000 - 100\<bar> < 5 then 0.15 else 0)
        + (if \<bar>real i / real n * 1000 - 150\<bar> < 5 then 0.08 else 0)
        + (if \<bar>real i / real n * 1000 - 180\<bar> < 10 then 0.05 else 0))\<rparr>"
proof -
  have i: "[0..<n] ! i = i" "i < length [0..<n]" using assms by simp_all
  show ?thesis
    unfolding generateFFTData_bearing_def nth_map [OF i(2)] i(1)
    by (simp only: Let_def peaks_factor(2) [unfolded Let_def])
qed

lemma generateFFTData_nth:
  assumes "i < 200"
  shows "generateFFTData rand r 200 m ! i =
     \<lparr>freq = 5 * real i,
      amplitude = m * (0.02 * rand (r + i)
        + (if i = 10 then 0.3 else 0) + (if i = 20 then 0.15 else 0) + (if i = 30 then 0.08 else 0)
        + (if i = 35 \<or> i = 36 \<or> i = 37 then 0.05 else 0)
        + (if i = 71 \<or> i = 72 \<or> i = 73 then 0.03 else 0))\<rparr>"
  unfolding generateFFTData_nth_any [OF assms] of_nat_numeral peak_index
  by simp

lemma generateFFTData_bearing_nth:
  assumes "i < 200"
  shows "generateFFTData_bearing rand r 200 m ! i =
     \<lparr>freq = 5 * real i,
      amplitude = m * (0.02 * rand (r + i)
        + (if i = 10 then 0.3 else 0) + (if i = 20 then 0.15 else 0) + (if i = 30 then 0.08 else 0)
        + (if i = 35 \<or> i = 36 \<or> i = 37 then 0.05 else 0))\<rparr>"
  unfolding generateFFTData_bearing_nth_any [OF assms] of_nat_numeral peak_index
  by simp

lemma generateFFTData_length:
  "length (generateFFTData rand r n m) = n" "length (generateFFTData_bearing rand r n m) = n"
  by (simp_all add: generateFFTData_def generateFFTData_bearing_def)

text \<open>The series of the generated bearings of the machine report.\<close>

lemma mockBearing_snd: "snd (mockBearing env m n r) = r + 612"
  by (simp add: mockBearing_def Let_def)

lemma generateMockBearingData_nth:
  assumes "k < 4"
  shows "fst (generateMockBearingData env m r) ! k
       = fst (mockBearing env m ([''Motor DE'', ''Motor NDE'', ''Pump DE'', ''Pump NDE''] ! k)
                (r + 612 * k))"
proof -
  have "k = 0 \<or> k = 1 \<or> k = 2 \<or> k = 3" using assms by arith
  then show ?thesis
    unfolding generateMockBearingData_def
    by (auto simp: split_beta Let_def mockBearing_snd add.commute)
qed

lemma mockBearing_fftData:
  "bd_fftData (fst (mockBearing env m n r)) H_axis
     = generateFFTData (random env) (r + 12) 200 (mockStatusMultiplier m)"
  "bd_fftData (fst (mockBearing env m n r)) V_axis
     = generateFFTData (random env) (r + 212) 200 (mockStatusMultiplier m)"
  "bd_fftData (fst (mockBearing env m n r)) A_axis
     = generateFFTData (random env) (r + 412) 200 (mockStatusMultiplier m)"
  by (simp_all add: mockBearing_def Let_def)

section \<open>The file name\<close>

lemma in_set_of_char: "c \<in> set s \<longleftrightarrow> (of_char c :: nat) \<in> of_char ` set s"
  by (auto simp: image_iff)

lemma allowed_char_set:
  "allowed_char c \<longleftrightarrow>
     c \<in> set ''abcdefghijklmnopqrstuvwxyzABCDEFGHIJKLMNOPQRSTUVWXYZ0123456789()-''"
proof -
  have "(\<exists>n. n = (of_char c :: nat) \<and> (97 \<le> n \<and> n \<le> 122 \<or> 65 \<le> n \<and> n \<le> 90 \<or> 48 \<le> n \<and> n \<le> 57
            \<or> n = 40 \<or> n = 41 \<or> n = 45))
     \<longleftrightarrow> (of_char c :: nat) \<in> of_char ` set ''abcdefghijklmnopqrstuvwxyzABCDEFGHIJKLMNOPQRSTUVWXYZ0123456789()-''"
    by (simp del: of_char_eq_iff) arith
  moreover have "c = CHR ''('' \<longleftrightarrow> (of_char c :: nat) = 40" "c = CHR '')'' \<longleftrightarrow> (of_char c :: nat) = 41"
    "c = CHR ''-'' \<longleftrightarrow> (of_char c :: nat) = 45"
    using of_char_eq_iff [of c "CHR ''(''", where ?'a = nat] of_char_eq_iff [of c "CHR '')''", where ?'a = nat]
      of_char_eq_iff [of c "CHR ''-''", where ?'a = nat]
    by simp_all
  ultimately show ?thesis
    unfolding in_set_of_char [of c] allowed_char_def is_lower_def is_upper_def is_digit_def
    by simp
qed


lemma reportBody_fileName:
  assumes "reportBody env logo m brg bearings single = Inr (fileName, calls)"
  shows "reportFileName env (machineName_of m) single brg = Inr fileName"
  using assms
  unfolding reportBody_def Let_def
  by (auto simp: bind_def split: sum.splits prod.splits)

lemma savedName_Some:
  "savedName (generatePDFReport env logo (Some m) brg bearings single) = Some fileName
   \<longleftrightarrow> (\<exists>calls. reportBody env logo m brg bearings single = Inr (fileName, calls))"
  by (auto simp: savedName_def generatePDFReport_def split: sum.splits)

lemma isoDate_split:
  assumes "toISOString env = d @ CHR ''T'' # rest" "CHR ''T'' \<notin> set d"
  shows "isoDate env = d"
proof -
  have "takeWhile (\<lambda>c. c \<noteq> CHR ''T'') (d @ CHR ''T'' # rest) = d"
    using assms(2) by (induction d) auto
  then show ?thesis using assms(1) by (simp add: isoDate_def)
qed

section \<open>The chart gallery\<close>

lemma ceiling_half: "nat \<lceil>real N / 2\<rceil> = (N + 1) div 2"
proof (cases "even N")
  case True
  then obtain m where "N = 2 * m" by (auto elim: evenE)
  then show ?thesis by simp
next
  case False
  then obtain m where N: "N = 2 * m + 1" by (auto elim: oddE)
  have "\<lceil>real N / 2\<rceil> = int m + 1"
    unfolding N by (rule ceiling_unique) (simp_all add: field_simps)
  then show ?thesis by (simp add: N)
qed

text \<open>
  C2. For a bearing list of length \<open>B\<close> whose ids and statuses are usable, the gallery loop
  of the bearing report returns normally and draws the pages 1 to \<open>ceil(3B / 2)\<close> of the
  gallery, in order: page \<open>k\<close> starts with a new page and holds the panels at the positions
  \<open>2k - 1\<close> and \<open>2k\<close> (the second one when it exists), where the panel at position \<open>j + 1\<close>
  is axis \<open>j mod 3\<close>, in the order H, V, A, of bearing \<open>j div 3\<close>. The gallery of the machine
  report of ChartsSection.jsx does the same over its bearing data. Each page contains one
  call of \<open>addPage\<close>, its first.
\<close>

theorem gallery_pagination:
  assumes "usable machineName" and "list_all usable_bearing bs"
    and "usable (js_or (m_machineName m) (m_name m))"
  shows "forEach (galleryBearing env logo machineName margin (length bs * 3)) 0 bs (0, p0, r0)
      = Inr (concat (map (bearingGalleryPage env logo machineName margin bs p0 r0)
                       [1..<Suc (nat \<lceil>real (3 * length bs) / 2\<rceil>)]),
             (3 * length bs, p0 + nat \<lceil>real (3 * length bs) / 2\<rceil>, r0 + 600 * length bs)) \<and>
    fftGallery env logo m margin bds q0
      = Inr (concat (map (machineGalleryPage env logo m margin bds q0)
                       [1..<Suc (nat \<lceil>real (3 * length bds) / 2\<rceil>)]),
             (3 * length bds, q0 + nat \<lceil>real (3 * length bds) / 2\<rceil>)) \<and>
    (\<exists>rest. bearingGalleryPage env logo machineName margin bs p0 r0 k = AddPage # rest
            \<and> AddPage \<notin> set rest) \<and>
    (\<exists>rest. machineGalleryPage env logo m margin bds q0 k = AddPage # rest \<and> AddPage \<notin> set rest)"
proof -
  obtain hdr where hdr: "drawPageHeader env logo machineName (pageWidth env) margin = Inr hdr"
    using drawPageHeader_usable [OF assms(1)] by blast
  obtain hdr' where hdr': "drawPageHeader env logo (js_or (m_machineName m) (m_name m))
      (pageWidth env) margin = Inr hdr'"
    using drawPageHeader_usable [OF assms(3)] by blast
  have us: "\<forall>b \<in> set bs. usable_bearing b"
    using assms(2) by (simp add: list_all_iff)
  show ?thesis
    unfolding ceiling_half
    using gallery_bearing_pages [OF hdr us, of p0 r0] fftGallery_pages [OF hdr', of bds q0]
      bearingGalleryPage_one_page [OF assms(1), of env logo margin bs p0 r0 k]
      machineGalleryPage_one_page [OF assms(3), of env logo margin bds q0 k]
    by blast
qed

text \<open>Two bearings: six panels on three pages, numbered 2, 3 and 4.\<close>

theorem gallery_pagination_witness:
  "usable (JStr ''Pump-01/X'') \<and> list_all usable_bearing [bearing_no_status, bearing_alert] \<and>
   usable (js_or (m_machineName machine_pump) (m_name machine_pump)) \<and>
   forEach (galleryBearing sample_env None (JStr ''Pump-01/X'') 12
              (length [bearing_no_status, bearing_alert] * 3)) 0
     [bearing_no_status, bearing_alert] (0, 2, 6)
     = Inr (concat (map (bearingGalleryPage sample_env None (JStr ''Pump-01/X'') 12
                           [bearing_no_status, bearing_alert] 2 6) [1, 2, 3]),
            (6, 5, 1206))"
proof -
  have h: "usable (JStr ''Pump-01/X'')" "list_all usable_bearing [bearing_no_status, bearing_alert]"
    "usable (js_or (m_machineName machine_pump) (m_name machine_pump))"
    by (simp_all add: usable_bearing_def bearing_no_status_def bearing_alert_def machine_pump_def
        no_machine_fields_def js_or_def)
  have c: "nat \<lceil>real (3 * length [bearing_no_status, bearing_alert]) / 2\<rceil> = 3"
    by simp
  have u: "[1..<Suc 3] = [1, 2, 3]"
    by (simp add: upt_rec)
  show ?thesis
    using gallery_pagination [OF h, of sample_env None 12 2 6 "[]" 4 1, unfolded c u] h
    by simp
qed

section \<open>The data tables\<close>

text \<open>
  C6, as the code has it. The table of the machine report of ChartsSection.jsx has one row
  per pair of a bearing of its bearing data and an axis, three rows per bearing, in the
  order H, V, A, each with the velocity, acceleration and envelope of that axis; its bearing
  data are always four generated bearings, whatever the machine has. The table of the
  bearing report has one row per reported bearing, with id, status, velocity, acceleration
  and temperature.
\<close>

theorem data_table_rows:
  "(list_all (\<lambda>brg. is_str (bd_date brg)) bds \<longrightarrow>
      vibrationRows env margin bds y0
        = Inr (concat (map (\<lambda>j. row_of (vibrationRow env margin (j div 3) (bds ! (j div 3)) (j mod 3)
                                          (panelAxis j) (y0 + rowHeight * real j)))
                         [0..<3 * length bds]),
               y0 + rowHeight * real (3 * length bds)) \<and>
      (\<forall>j < 3 * length bds.
         texts (row_of (vibrationRow env margin (j div 3) (bds ! (j div 3)) (j mod 3)
                          (panelAxis j) (y0 + rowHeight * real j)))
           = [if j mod 3 = 0 then bd_bearingName (bds ! (j div 3)) else [],
              if j mod 3 = 0 then js_toString env (bd_date (bds ! (j div 3))) else [],
              axis_letter (panelAxis j),
              met_vel (bd_metrics (bds ! (j div 3)) (panelAxis j)),
              met_acc (bd_metrics (bds ! (j div 3)) (panelAxis j)),
              met_env (bd_metrics (bds ! (j div 3)) (panelAxis j)), ''-''])) \<and>
   length (fst (generateMockBearingData env m r)) = 4 \<and>
   (usable (m_date m) \<longrightarrow>
      list_all (\<lambda>brg. is_str (bd_date brg))
        (fst (generateMockBearingData env m r))) \<and>
   (list_all usable_bearing bs \<longrightarrow>
      forEach (bearingRow env margin) 0 bs (y0, r0)
        = Inr (concat (map (\<lambda>k. row_of (bearingRow env margin k (bs ! k)
                                          (y0 + rowHeight * real k, r0 + 3 * k)))
                         [0..<length bs]),
               (y0 + rowHeight * real (length bs), r0 + 3 * length bs)) \<and>
      (\<forall>k < length bs.
         texts (row_of (bearingRow env margin k (bs ! k) (y0 + rowHeight * real k, r0 + 3 * k)))
           = [text_of (substring0 (js_or (js_or (b_id (bs ! k)) (b_bearingId (bs ! k)))
                         (JStr (''Bearing-'' @ string_of_nat (k + 1)))) 25),
              text_of (bearingStatus (bs ! k)),
              toFixed env (1.5 + random env (r0 + 3 * k) * 2) 2,
              toFixed env (0.1 + random env (r0 + 3 * k + 1) * 0.2) 3,
              toFixed env (25 + random env (r0 + 3 * k + 2) * 10) 1]))"
proof (intro conjI impI allI)
  assume d: "list_all (\<lambda>brg. is_str (bd_date brg)) bds"
  then have d': "\<forall>brg \<in> set bds. \<exists>dt. bd_date brg = JStr dt"
    by (auto simp: list_all_iff elim: is_str.elims)
  show "vibrationRows env margin bds y0
        = Inr (concat (map (\<lambda>j. row_of (vibrationRow env margin (j div 3) (bds ! (j div 3)) (j mod 3)
                                          (panelAxis j) (y0 + rowHeight * real j)))
                         [0..<3 * length bds]),
               y0 + rowHeight * real (3 * length bds))"
    by (rule vibrationRows_closed [OF d'])
  fix j assume "j < 3 * length bds"
  then have "bds ! (j div 3) \<in> set bds" by simp
  then have "is_str (bd_date (bds ! (j div 3)))"
    using d by (simp add: list_all_iff)
  then have dt: "bd_date (bds ! (j div 3)) = JStr (js_toString env (bd_date (bds ! (j div 3))))"
    by (cases "bd_date (bds ! (j div 3))") simp_all
  show "texts (row_of (vibrationRow env margin (j div 3) (bds ! (j div 3)) (j mod 3)
                          (panelAxis j) (y0 + rowHeight * real j)))
           = [if j mod 3 = 0 then bd_bearingName (bds ! (j div 3)) else [],
              if j mod 3 = 0 then js_toString env (bd_date (bds ! (j div 3))) else [],
              axis_letter (panelAxis j),
              met_vel (bd_metrics (bds ! (j div 3)) (panelAxis j)),
              met_acc (bd_metrics (bds ! (j div 3)) (panelAxis j)),
              met_env (bd_metrics (bds ! (j div 3)) (panelAxis j)), ''-'']"
    using vibrationRow_usable [OF dt, of env margin "j div 3" "j mod 3" "panelAxis j"
        "y0 + rowHeight * real j"]
    by (auto simp: row_of_def)
next
  show "length (fst (generateMockBearingData env m r)) = 4"
    by (rule generateMockBearingData_length)
next
  assume u: "usable (m_date m)"
  show "list_all (\<lambda>brg. is_str (bd_date brg))
        (fst (generateMockBearingData env m r))"
    unfolding list_all_iff
  proof
    fix brg assume "brg \<in> set (fst (generateMockBearingData env m r))"
    then obtain dt where "bd_date brg = JStr dt"
      using generateMockBearingData_date [OF u] by blast
    then show "is_str (bd_date brg)" by simp
  qed
next
  assume "list_all usable_bearing bs"
  then have us: "\<forall>b \<in> set bs. usable_bearing b" by (simp add: list_all_iff)
  show "forEach (bearingRow env margin) 0 bs (y0, r0)
        = Inr (concat (map (\<lambda>k. row_of (bearingRow env margin k (bs ! k)
                                          (y0 + rowHeight * real k, r0 + 3 * k)))
                         [0..<length bs]),
               (y0 + rowHeight * real (length bs), r0 + 3 * length bs))"
    by (rule bearingRows_closed [OF us])
  fix k assume "k < length bs"
  then have u: "usable_bearing (bs ! k)" using us by simp
  show "texts (row_of (bearingRow env margin k (bs ! k) (y0 + rowHeight * real k, r0 + 3 * k)))
           = [text_of (substring0 (js_or (js_or (b_id (bs ! k)) (b_bearingId (bs ! k)))
                         (JStr (''Bearing-'' @ string_of_nat (k + 1)))) 25),
              text_of (bearingStatus (bs ! k)),
              toFixed env (1.5 + random env (r0 + 3 * k) * 2) 2,
              toFixed env (0.1 + random env (r0 + 3 * k + 1) * 0.2) 3,
              toFixed env (25 + random env (r0 + 3 * k + 2) * 10) 1]"
    using bearingRow_usable [OF u, of env margin k "y0 + rowHeight * real k" "r0 + 3 * k"]
    by (auto simp: row_of_def)
qed


text \<open>
  The machine report of the machine "Pump-01/X": the generated bearing data have string
  dates, and the table has 84 cells, 12 rows of 7. A bearing report over two bearings: the
  first row has the five cells of the first bearing.
\<close>

theorem data_table_rows_witness:
  "usable (m_date machine_pump) \<and>
   list_all (\<lambda>brg. is_str (bd_date brg)) (fst (generateMockBearingData sample_env machine_pump 0)) \<and>
   length (texts (row_of (vibrationRows sample_env 12
                            (fst (generateMockBearingData sample_env machine_pump 0)) 49))) = 84 \<and>
   list_all usable_bearing [bearing_no_status, bearing_alert] \<and>
   (0::nat) < length [bearing_no_status, bearing_alert] \<and>
   texts (row_of (bearingRow sample_env 12 0 ([bearing_no_status, bearing_alert] ! 0)
                    (49 + rowHeight * real (0::nat), 0 + 3 * 0)))
     = [''B1'', ''satisfactory'', ''2.50'', ''0.200'', ''30.0'']"
proof -
  let ?bds = "fst (generateMockBearingData sample_env machine_pump 0)"
  have h: "list_all usable_bearing [bearing_no_status, bearing_alert]"
    by (simp add: usable_bearing_def bearing_no_status_def bearing_alert_def)
  have u: "usable (m_date machine_pump)"
    by (simp add: machine_pump_def no_machine_fields_def)
  have v: "text_of (substring0 (js_or (js_or (b_id bearing_no_status) (b_bearingId bearing_no_status))
                         (JStr (''Bearing-'' @ string_of_nat (0 + 1)))) 25) = ''B1''"
    "text_of (bearingStatus bearing_no_status) = ''satisfactory''"
    "toFixed sample_env (1.5 + random sample_env (0 + 3 * 0) * 2) 2 = ''2.50''"
    "toFixed sample_env (0.1 + random sample_env (0 + 3 * 0 + 1) * 0.2) 3 = ''0.200''"
    "toFixed sample_env (25 + random sample_env (0 + 3 * 0 + 2) * 10) 1 = ''30.0''"
    by code_simp+
  note t = data_table_rows [where env = sample_env and bds = ?bds and margin = 12 and ?y0.0 = 49
      and m = machine_pump and r = 0 and bs = "[bearing_no_status, bearing_alert]" and ?r0.0 = 0]
  have n: "length ?bds = 4" and d: "list_all (\<lambda>brg. is_str (bd_date brg)) ?bds"
    using t u by blast+
  let ?row = "\<lambda>j. row_of (vibrationRow sample_env 12 (j div 3) (?bds ! (j div 3)) (j mod 3)
                          (panelAxis j) (49 + rowHeight * real j))"
  have rows: "vibrationRows sample_env 12 ?bds 49
      = Inr (concat (map ?row [0..<3 * length ?bds]), 49 + rowHeight * real (3 * length ?bds))"
    and cells: "\<forall>j < 3 * length ?bds. texts (?row j)
           = [if j mod 3 = 0 then bd_bearingName (?bds ! (j div 3)) else [],
              if j mod 3 = 0 then js_toString sample_env (bd_date (?bds ! (j div 3))) else [],
              axis_letter (panelAxis j),
              met_vel (bd_metrics (?bds ! (j div 3)) (panelAxis j)),
              met_acc (bd_metrics (?bds ! (j div 3)) (panelAxis j)),
              met_env (bd_metrics (?bds ! (j div 3)) (panelAxis j)), ''-'']"
    using t d by blast+
  have "length (texts (?row j)) = 7" if "j \<in> set [0..<3 * length ?bds]" for j
    using cells that by simp
  then have "length (texts (concat (map ?row [0..<3 * length ?bds]))) = 7 * length [0..<3 * length ?bds]"
    by (rule texts_concat_length)
  then have c: "length (texts (row_of (vibrationRows sample_env 12 ?bds 49))) = 84"
    unfolding rows by (simp add: row_of_def n)
  have "texts (row_of (bearingRow sample_env 12 0 ([bearing_no_status, bearing_alert] ! 0)
                    (49 + rowHeight * real (0::nat), 0 + 3 * 0)))
     = [text_of (substring0 (js_or (js_or (b_id ([bearing_no_status, bearing_alert] ! 0))
                                      (b_bearingId ([bearing_no_status, bearing_alert] ! 0)))
                         (JStr (''Bearing-'' @ string_of_nat (0 + 1)))) 25),
        text_of (bearingStatus ([bearing_no_status, bearing_alert] ! 0)),
        toFixed sample_env (1.5 + random sample_env (0 + 3 * 0) * 2) 2,
        toFixed sample_env (0.1 + random sample_env (0 + 3 * 0 + 1) * 0.2) 3,
        toFixed sample_env (25 + random sample_env (0 + 3 * 0 + 2) * 10) 1]"
    using t h by auto
  then show ?thesis
    using h u v d c by simp
qed

text \<open>
  The table of a bearing report over two bearings holds ten cells, two rows of five, and the
  loop leaves \<open>yPos\<close> two rows below its start: not six rows.
\<close>

theorem data_table_rows_counterexample:
  "texts (row_of (forEach (bearingRow sample_env 12) 0 [bearing_no_status, bearing_alert] (97, 0)))
     = [''B1'', ''satisfactory'', ''2.50'', ''0.200'', ''30.0'',
        ''B2'', ''alert'', ''2.50'', ''0.200'', ''30.0''] \<and>
   length (fst (generateMockBearingData sample_env machine_alert 0)) = 4"
proof -
  have "texts (row_of (forEach (bearingRow sample_env 12) 0 [bearing_no_status, bearing_alert] (97, 0)))
     = [''B1'', ''satisfactory'', ''2.50'', ''0.200'', ''30.0'',
        ''B2'', ''alert'', ''2.50'', ''0.200'', ''30.0'']"
    by code_simp
  then show ?thesis
    using generateMockBearingData_length [of sample_env machine_alert 0] by simp
qed

section \<open>The name of the saved file\<close>

text \<open>
  C7, as the code has it. When a bearing report is saved, its file name is
  \<open>Report_<name>_<scope>_<date>.pdf\<close>, where \<open>name\<close> is the machine name with every
  character outside \<open>[a-zA-Z0-9()-]\<close> replaced by an underscore (none is removed), \<open>scope\<close>
  is \<open>all_bearings\<close> for the whole machine, or the first 20 characters of the bearing id
  when the report is for a single bearing and that bearing is given, and \<open>date\<close> is the part
  of the ISO time stamp before \<open>T\<close>.
\<close>

theorem reportFileName_form:
  assumes saved: "savedName (generatePDFReport env logo (Some m) brg bearings single) = Some fileName"
    and name: "machineName_of m = JStr nm"
    and bid: "single \<and> brg \<noteq> None \<Longrightarrow>
                js_or (js_or (b_id (the brg)) (b_bearingId (the brg))) (JStr ''bearing'') = JStr bid"
    and iso: "toISOString env = d @ CHR ''T'' # rest" "CHR ''T'' \<notin> set d"
  shows "fileName = ''Report_''
      @ map (\<lambda>c. if c \<in> set ''abcdefghijklmnopqrstuvwxyzABCDEFGHIJKLMNOPQRSTUVWXYZ0123456789()-''
                  then c else CHR ''_'') nm
      @ ''_'' @ (if single \<and> brg \<noteq> None then take 20 bid else ''all_bearings'')
      @ ''_'' @ d @ ''.pdf''"
proof -
  obtain calls where "reportBody env logo m brg bearings single = Inr (fileName, calls)"
    using saved savedName_Some by blast
  then have fn: "reportFileName env (JStr nm) single brg = Inr fileName"
    using reportBody_fileName name by metis
  have d: "isoDate env = d" using iso by (rule isoDate_split)
  show ?thesis
  proof (cases "single \<and> brg \<noteq> None")
    case True
    then obtain b where b: "brg = Some b" by auto
    have "js_or (js_or (b_id b) (b_bearingId b)) (JStr ''bearing'') = JStr bid"
      using bid True b by simp
    then show ?thesis
      using fn True b d by (simp add: reportFileName_def allowed_char_set)
  next
    case False
    then show ?thesis
      using fn d by (auto simp: reportFileName_def allowed_char_set split: option.splits)
  qed
qed

text \<open>
  The machine "Pump-01/X" on 2024-06-01: the whole-machine report, and the report for the
  single bearing whose id has 29 characters.
\<close>

theorem reportFileName_form_witness:
  "savedName (generatePDFReport sample_env None (Some machine_pump) None [] False)
     = Some ''Report_Pump-01_X_all_bearings_2024-06-01.pdf'' \<and>
   savedName (generatePDFReport sample_env None (Some machine_pump) (Some bearing_long_id) [] True)
     = Some ''Report_Pump-01_X_bearing-0123456789-a_2024-06-01.pdf'' \<and>
   machineName_of machine_pump = JStr ''Pump-01/X'' \<and>
   js_or (js_or (b_id bearing_long_id) (b_bearingId bearing_long_id)) (JStr ''bearing'')
     = JStr ''bearing-0123456789-abcdefghij'' \<and>
   toISOString sample_env = ''2024-06-01'' @ CHR ''T'' # ''10:15:30.000Z'' \<and>
   CHR ''T'' \<notin> set ''2024-06-01''"
proof -
  have um: "usable_machine machine_pump"
    by (simp add: usable_machine_def machine_pump_def no_machine_fields_def)
  have ub: "usable_bearing bearing_long_id"
    by (simp add: usable_bearing_def bearing_long_id_def)
  have f1: "text_of (reportFileName sample_env (machineName_of machine_pump) False None)
      = ''Report_Pump-01_X_all_bearings_2024-06-01.pdf''"
    and f2: "text_of (reportFileName sample_env (machineName_of machine_pump) True (Some bearing_long_id))
      = ''Report_Pump-01_X_bearing-0123456789-a_2024-06-01.pdf''"
    by code_simp+
  have s1: "savedName (generatePDFReport sample_env None (Some machine_pump) None [] False)
     = Some ''Report_Pump-01_X_all_bearings_2024-06-01.pdf''"
    using generatePDFReport_saved [OF um, of "[]" None sample_env None False]
    by (simp add: savedName_def f1)
  have s2: "savedName (generatePDFReport sample_env None (Some machine_pump) (Some bearing_long_id) [] True)
     = Some ''Report_Pump-01_X_bearing-0123456789-a_2024-06-01.pdf''"
    using generatePDFReport_saved [OF um, of "[]" "Some bearing_long_id" sample_env None True] ub
    by (simp add: savedName_def f2)
  have n: "machineName_of machine_pump = JStr ''Pump-01/X''"
    by code_simp
  have b: "js_or (js_or (b_id bearing_long_id) (b_bearingId bearing_long_id)) (JStr ''bearing'')
     = JStr ''bearing-0123456789-abcdefghij''"
    by code_simp
  have i: "toISOString sample_env = ''2024-06-01'' @ CHR ''T'' # ''10:15:30.000Z''"
    "CHR ''T'' \<notin> set ''2024-06-01''"
    by (simp_all add: sample_env_def)
  have "''Report_Pump-01_X_all_bearings_2024-06-01.pdf'' = ''Report_''
      @ map (\<lambda>c. if c \<in> set ''abcdefghijklmnopqrstuvwxyzABCDEFGHIJKLMNOPQRSTUVWXYZ0123456789()-''
                  then c else CHR ''_'') ''Pump-01/X''
      @ ''_'' @ (if False \<and> (None :: bearing option) \<noteq> None then take 20 [] else ''all_bearings'')
      @ ''_'' @ ''2024-06-01'' @ ''.pdf''"
    using reportFileName_form [OF s1 n _ i, of "[]"] by simp
  moreover have "''Report_Pump-01_X_bearing-0123456789-a_2024-06-01.pdf'' = ''Report_''
      @ map (\<lambda>c. if c \<in> set ''abcdefghijklmnopqrstuvwxyzABCDEFGHIJKLMNOPQRSTUVWXYZ0123456789()-''
                  then c else CHR ''_'') ''Pump-01/X''
      @ ''_'' @ (if True \<and> Some bearing_long_id \<noteq> None
                 then take 20 ''bearing-0123456789-abcdefghij'' else ''all_bearings'')
      @ ''_'' @ ''2024-06-01'' @ ''.pdf''"
    using reportFileName_form [OF s2 n _ i, of "''bearing-0123456789-abcdefghij''"] b by simp
  ultimately show ?thesis using s1 s2 n b i by simp
qed

text \<open>
  The saved name keeps an underscore where "Pump-01/X" has the slash: it is not the name
  with the slash removed.
\<close>

theorem reportFileName_removal_counterexample:
  "savedName (generatePDFReport sample_env None (Some machine_pump) None [] False)
     = Some ''Report_Pump-01_X_all_bearings_2024-06-01.pdf'' \<and>
   ''Report_Pump-01_X_all_bearings_2024-06-01.pdf''
     \<noteq> ''Report_'' @ filter allowed_char ''Pump-01/X'' @ ''_all_bearings_2024-06-01.pdf''"
  by code_simp

section \<open>The synthetic spectra\<close>

text \<open>
  C8, as the code has it. A point of a generated series is a base magnitude, 0.02 times one
  draw of \<open>Math.random()\<close> and so below 0.02 when the draw is in [0, 1), plus the fixed
  peaks, all scaled by the multiplier. The generator of the machine report (ChartsSection.jsx)
  makes four bearings, and for each one series of 200 points per axis, at 0, 5, ..., 995 Hz,
  with the multiplier 2.5 for the machine status "unacceptable", 1.8 for "alert", 1.2 for
  "satisfactory" and 1.0 otherwise, and peaks at five frequencies: 50, 100, 150, 175 to 185,
  and 355 to 365 Hz. The bearing report makes its series in the gallery loop: for a bearing
  whose id and status are usable, one pass of the loop draws three charts, for the axes H, V
  and A, each from a fresh series of 200 points with the first four peaks only, scaled by
  2.5 when the lower-cased status of the bearing is "unacceptable", 1.8 when it is "alert"
  and 1.0 otherwise.
\<close>

theorem synthetic_spectra:
  assumes "i < 200" and "0 \<le> rand (r + i) \<and> rand (r + i) < 1" and "k < 4"
    and "usable machineName" and "usable_bearing b"
  shows
  "(let base = 0.02 * rand (r + i) in
      0 \<le> base \<and> base < 0.02 \<and>
      generateFFTData rand r 200 mult ! i =
        \<lparr>freq = 5 * real i,
         amplitude = mult * (base
           + (if i = 10 then 0.3 else 0) + (if i = 20 then 0.15 else 0) + (if i = 30 then 0.08 else 0)
           + (if i = 35 \<or> i = 36 \<or> i = 37 then 0.05 else 0)
           + (if i = 71 \<or> i = 72 \<or> i = 73 then 0.03 else 0))\<rparr> \<and>
      generateFFTData_bearing rand r 200 mult ! i =
        \<lparr>freq = 5 * real i,
         amplitude = mult * (base
           + (if i = 10 then 0.3 else 0) + (if i = 20 then 0.15 else 0) + (if i = 30 then 0.08 else 0)
           + (if i = 35 \<or> i = 36 \<or> i = 37 then 0.05 else 0))\<rparr>) \<and>
   length (generateFFTData rand r 200 mult) = 200 \<and>
   length (generateFFTData_bearing rand r 200 mult) = 200 \<and>
   mockStatusMultiplier m =
     (if m_status m = JStr ''unacceptable'' then 2.5 else if m_status m = JStr ''alert'' then 1.8
      else if m_status m = JStr ''satisfactory'' then 1.2 else 1.0) \<and>
   1 \<le> mockStatusMultiplier m \<and> mockStatusMultiplier m \<le> 2.5 \<and>
   length (fst (generateMockBearingData env m r0)) = 4 \<and>
   bd_fftData (fst (generateMockBearingData env m r0) ! k) H_axis
     = generateFFTData (random env) (r0 + 612 * k + 12) 200 (mockStatusMultiplier m) \<and>
   bd_fftData (fst (generateMockBearingData env m r0) ! k) V_axis
     = generateFFTData (random env) (r0 + 612 * k + 212) 200 (mockStatusMultiplier m) \<and>
   bd_fftData (fst (generateMockBearingData env m r0) ! k) A_axis
     = generateFFTData (random env) (r0 + 612 * k + 412) 200 (mockStatusMultiplier m) \<and>
   galleryBearing env logo machineName margin nCharts bIdx b (j, pg, rnd) =
    (let st = text_of (bearingStatus b);
         mult = (if st = ''unacceptable'' then 2.5 else if st = ''alert'' then 1.8 else 1.0);
         hdr = ops_of (drawPageHeader env logo machineName (pageWidth env) margin);
         idt = text_of (substring0 (js_or (js_or (b_id b) (b_bearingId b)) (JStr ''Bearing'')) 40);
         top = (\<lambda>c. if even c
                  then AddPage # hdr @ [SetTextColor [30, 41, 59], SetFontSize 9,
                                        Text (''Bearing: '' @ idt) margin 28 NoOpt]
                  else []);
         chart = (\<lambda>a axis c.
                  drawFFTChart (Some (generateFFTData_bearing (random env) (rnd + 200 * a) 200 mult))
                    (margin + 5) (if even c then 45 else 145) (pageWidth env - 2 * margin - 10) 80
                    (''FFT Spectrum - Velocity > ('' @ axis_letter axis @ ''-Axis)'') (chartColors axis)
                  @ [SetFontSize 7, SetTextColor [100, 100, 100],
                     Text (''Date: '' @ isoDate env) (margin + 5) ((if even c then 45 else 145) + 90)
                       NoOpt]);
         ends = (\<lambda>c. even c \<or> c = nCharts);
         foot = (\<lambda>c p. if ends c then drawPageFooter p (pageWidth env) (pageHeight env) margin
                        else []);
         pg1 = (if ends (j + 1) then pg + 1 else pg);
         pg2 = (if ends (j + 2) then pg1 + 1 else pg1);
         pg3 = (if ends (j + 3) then pg2 + 1 else pg2)
     in Inr (top j @ chart 0 H_axis j @ foot (j + 1) pg
             @ top (j + 1) @ chart 1 V_axis (j + 1) @ foot (j + 2) pg1
             @ top (j + 2) @ chart 2 A_axis (j + 2) @ foot (j + 3) pg2,
             (j + 3, pg3, rnd + 600)))"
proof -
  have b: "0 \<le> 0.02 * rand (r + i)" "0.02 * rand (r + i) < 0.02"
    using assms(2) by simp_all
  have g: "generateFFTData rand r 200 mult ! i =
        \<lparr>freq = 5 * real i,
         amplitude = mult * (0.02 * rand (r + i)
           + (if i = 10 then 0.3 else 0) + (if i = 20 then 0.15 else 0) + (if i = 30 then 0.08 else 0)
           + (if i = 35 \<or> i = 36 \<or> i = 37 then 0.05 else 0)
           + (if i = 71 \<or> i = 72 \<or> i = 73 then 0.03 else 0))\<rparr>"
    "generateFFTData_bearing rand r 200 mult ! i =
        \<lparr>freq = 5 * real i,
         amplitude = mult * (0.02 * rand (r + i)
           + (if i = 10 then 0.3 else 0) + (if i = 20 then 0.15 else 0) + (if i = 30 then 0.08 else 0)
           + (if i = 35 \<or> i = 36 \<or> i = 37 then 0.05 else 0))\<rparr>"
    using generateFFTData_nth [OF assms(1)] generateFFTData_bearing_nth [OF assms(1)] by blast+
  have p1: "(let base = 0.02 * rand (r + i) in
      0 \<le> base \<and> base < 0.02 \<and>
      generateFFTData rand r 200 mult ! i =
        \<lparr>freq = 5 * real i,
         amplitude = mult * (base
           + (if i = 10 then 0.3 else 0) + (if i = 20 then 0.15 else 0) + (if i = 30 then 0.08 else 0)
           + (if i = 35 \<or> i = 36 \<or> i = 37 then 0.05 else 0)
           + (if i = 71 \<or> i = 72 \<or> i = 73 then 0.03 else 0))\<rparr> \<and>
      generateFFTData_bearing rand r 200 mult ! i =
        \<lparr>freq = 5 * real i,
         amplitude = mult * (base
           + (if i = 10 then 0.3 else 0) + (if i = 20 then 0.15 else 0) + (if i = 30 then 0.08 else 0)
           + (if i = 35 \<or> i = 36 \<or> i = 37 then 0.05 else 0))\<rparr>)"
    unfolding Let_def using b g by blast
  have p2: "length (generateFFTData rand r 200 mult) = 200"
    "length (generateFFTData_bearing rand r 200 mult) = 200"
    by (rule generateFFTData_length)+
  have p3: "mockStatusMultiplier m =
     (if m_status m = JStr ''unacceptable'' then 2.5 else if m_status m = JStr ''alert'' then 1.8
      else if m_status m = JStr ''satisfactory'' then 1.2 else 1.0)"
    "1 \<le> mockStatusMultiplier m" "mockStatusMultiplier m \<le> 2.5"
    by (simp_all add: mockStatusMultiplier_def)
  have p4: "length (fst (generateMockBearingData env m r0)) = 4"
    by (rule generateMockBearingData_length)
  have p5: "bd_fftData (fst (generateMockBearingData env m r0) ! k) H_axis
     = generateFFTData (random env) (r0 + 612 * k + 12) 200 (mockStatusMultiplier m)"
    "bd_fftData (fst (generateMockBearingData env m r0) ! k) V_axis
     = generateFFTData (random env) (r0 + 612 * k + 212) 200 (mockStatusMultiplier m)"
    "bd_fftData (fst (generateMockBearingData env m r0) ! k) A_axis
     = generateFFTData (random env) (r0 + 612 * k + 412) 200 (mockStatusMultiplier m)"
    unfolding generateMockBearingData_nth [OF assms(3)] mockBearing_fftData by (rule refl)+
  note p6 = galleryBearing_charts [OF usable_ops_of [OF assms(4)] usable_text_of(1) [OF assms(5)]
      usable_text_of(2) [OF assms(5)],
      where env = env and logo = logo and margin = margin and N = nCharts and bIdx = bIdx
        and j = j and pg = pg and r = rnd]
  show ?thesis
    using p1 p2 p3 p4 p5 p6 by (simp only: Let_def simp_thms)
qed

text \<open>
  Point 72 (360 Hz) with a draw of 0.5 and the multiplier 1, the second generated bearing of
  a machine with the status "alert", and one pass of the gallery loop for a bearing with the
  status "alert": its three series have the multiplier 1.8.
\<close>

theorem synthetic_spectra_witness:
  "(72::nat) < 200 \<and> (0 \<le> sample_random (0 + 72) \<and> sample_random (0 + 72) < 1) \<and> (1::nat) < 4 \<and>
   usable (JStr ''Pump-01/X'') \<and> usable_bearing bearing_alert \<and>
   generateFFTData sample_random 0 200 1 ! 72 = \<lparr>freq = 360, amplitude = 1 / 25\<rparr> \<and>
   generateFFTData_bearing sample_random 0 200 1 ! 72 = \<lparr>freq = 360, amplitude = 1 / 100\<rparr> \<and>
   bd_fftData (fst (generateMockBearingData sample_env machine_alert 0) ! 1) V_axis
     = generateFFTData sample_random 824 200 (9 / 5) \<and>
   galleryBearing sample_env None (JStr ''Pump-01/X'') 12 6 1 bearing_alert (0, 2, 6)
     = Inr (AddPage # ops_of (drawPageHeader sample_env None (JStr ''Pump-01/X'') 210 12)
            @ [SetTextColor [30, 41, 59], SetFontSize 9, Text ''Bearing: B2'' 12 28 NoOpt]
            @ drawFFTChart (Some (generateFFTData_bearing sample_random 6 200 (9 / 5))) 17 45 176 80
                ''FFT Spectrum - Velocity > (H-Axis)'' (chartColors H_axis)
            @ [SetFontSize 7, SetTextColor [100, 100, 100], Text ''Date: 2024-06-01'' 17 135 NoOpt]
            @ drawFFTChart (Some (generateFFTData_bearing sample_random 206 200 (9 / 5))) 17 145 176 80
                ''FFT Spectrum - Velocity > (V-Axis)'' (chartColors V_axis)
            @ [SetFontSize 7, SetTextColor [100, 100, 100], Text ''Date: 2024-06-01'' 17 235 NoOpt]
            @ drawPageFooter 2 210 297 12
            @ AddPage # ops_of (drawPageHeader sample_env None (JStr ''Pump-01/X'') 210 12)
            @ [SetTextColor [30, 41, 59], SetFontSize 9, Text ''Bearing: B2'' 12 28 NoOpt]
            @ drawFFTChart (Some (generateFFTData_bearing sample_random 406 200 (9 / 5))) 17 45 176 80
                ''FFT Spectrum - Velocity > (A-Axis)'' (chartColors A_axis)
            @ [SetFontSize 7, SetTextColor [100, 100, 100], Text ''Date: 2024-06-01'' 17 135 NoOpt],
            (3, 3, 606))"
proof -
  have h: "(72::nat) < 200" "0 \<le> sample_random (0 + 72) \<and> sample_random (0 + 72) < 1" "(1::nat) < 4"
    "usable (JStr ''Pump-01/X'')" "usable_bearing bearing_alert"
    by (simp_all add: sample_random_def usable_bearing_def bearing_alert_def)
  have st: "text_of (bearingStatus bearing_alert) = ''alert''"
    by code_simp
  have idt: "text_of (substring0 (js_or (js_or (b_id bearing_alert) (b_bearingId bearing_alert))
                 (JStr ''Bearing'')) 40) = ''B2''"
    by code_simp
  have d: "isoDate sample_env = ''2024-06-01''"
    by code_simp
  have e: "random sample_env = sample_random" "pageWidth sample_env = 210"
    "pageHeight sample_env = 297"
    by (simp_all add: sample_env_def)
  have m: "mockStatusMultiplier machine_alert = 9 / 5"
    by (simp add: mockStatusMultiplier_def machine_alert_def no_machine_fields_def)
  show ?thesis
    using synthetic_spectra [where i = 72 and rand = sample_random and r = 0 and k = 1
        and machineName = "JStr ''Pump-01/X''" and b = bearing_alert
        and mult = 1 and m = machine_alert and env = sample_env
        and ?r0.0 = 0 and logo = None and margin = 12 and nCharts = 6 and bIdx = 1 and j = 0
        and pg = 2 and rnd = 6, OF h] h
    unfolding Let_def st idt d e m
    by (simp add: sample_random_def)
qed

text \<open>
  The series of the bearing report has no peak at 360 Hz: with a base draw of 0.5 and the
  multiplier 1 its amplitude there is 0.01, where the machine report has 0.04.
\<close>

theorem synthetic_spectra_counterexample:
  "freq (generateFFTData_bearing sample_random 0 200 1 ! 72) = 360 \<and>
   amplitude (generateFFTData_bearing sample_random 0 200 1 ! 72) = 1 / 100 \<and>
   amplitude (generateFFTData sample_random 0 200 1 ! 72) = 1 / 25"
  using generateFFTData_bearing_nth [of 72 sample_random 0 1] generateFFTData_nth [of 72 sample_random 0 1]
  by (simp add: sample_random_def)

section \<open>Severity of machines and bearings\<close>

lemma toLowerCase_char_idem: "toLowerCase_char (toLowerCase_char c) = toLowerCase_char c"
proof (cases "is_upper c")
  case True
  then have "(of_char (toLowerCase_char c) :: nat) = of_char c + 32"
    by (simp add: toLowerCase_char_def is_upper_def)
  then have "\<not> is_upper (toLowerCase_char c)"
    using True by (simp add: is_upper_def)
  then show ?thesis by (simp add: toLowerCase_char_def)
next
  case False
  then show ?thesis by (simp add: toLowerCase_char_def)
qed

lemma getStatusSeverity_lower:
  "getStatusSeverity (JStr (map toLowerCase_char s)) = getStatusSeverity (JStr s)"
  by (cases "s = []") (simp_all add: getStatusSeverity_def js_or_def toLowerCase_char_idem comp_def)

lemma severity_of_label:
  assumes "js_or label (JStr d) = JStr s"
  shows "bind (toLowerCase (js_or label (JStr d))) (\<lambda>st. getStatusSeverity (JStr st))
     = Inr (spec_classify s)"
proof -
  have "bind (toLowerCase (js_or label (JStr d))) (\<lambda>st. getStatusSeverity (JStr st))
      = getStatusSeverity (JStr s)"
    by (simp add: assms getStatusSeverity_lower)
  then show ?thesis
    by (simp only: getStatusSeverity_Str spec_classify_def)
qed

lemma js_or_truthy: "truthy a \<Longrightarrow> js_or a b = a"
  by (simp add: js_or_def)

lemma js_or_falsy: "\<not> truthy a \<Longrightarrow> js_or a b = b"
  by (simp add: js_or_def)

lemma spec_classify_satisfactory: "spec_classify ''satisfactory'' = B" "spec_classify ''normal'' = A"
  by code_simp+

text \<open>
  C9, as the code has it. A machine or bearing whose status label is a non-empty string gets
  the one severity of that label, level 1 when the label is not recognized, for bearings as
  for machines. Without a label (none of \<open>statusName\<close> and \<open>status\<close> is truthy) a machine
  is taken as "normal", level 1, and a bearing as "satisfactory", level 2; the status cell of
  the bearing's table row shows that status in the colour of that level.
\<close>

theorem severity_defaults:
  "(js_or (m_statusName m) (m_status m) = JStr s \<and> s \<noteq> [] \<longrightarrow>
      machineSeverity m = Inr (spec_classify s)) \<and>
   (\<not> truthy (m_statusName m) \<and> \<not> truthy (m_status m) \<longrightarrow>
      machineStatus m = Inr ''normal'' \<and> machineSeverity m = Inr A) \<and>
   (js_or (b_statusName b) (b_status b) = JStr s \<and> s \<noteq> [] \<longrightarrow>
      bearingSeverity b = Inr (spec_classify s)) \<and>
   (\<not> truthy (b_statusName b) \<and> \<not> truthy (b_status b) \<longrightarrow>
      bearingStatus b = Inr ''satisfactory'' \<and> bearingSeverity b = Inr B) \<and>
   (\<not> spelling_of ''normal'' s \<and> \<not> spelling_of ''satisfactory'' s \<and> \<not> spelling_of ''alert'' s \<and>
    \<not> spelling_of ''unacceptable'' s \<and> \<not> spelling_of ''unsatisfactory'' s \<longrightarrow>
      spec_classify s = A) \<and>
   (usable_bearing b \<longrightarrow>
      SetTextColor (bg (SEVERITY_COLORS (sev_of (bearingSeverity b))))
        \<in> set (row_of (bearingRow env margin bIdx b (y, r))) \<and>
      Text (text_of (bearingStatus b)) (margin + 60 + 2) (y + 5) NoOpt
        \<in> set (row_of (bearingRow env margin bIdx b (y, r)))) \<and>
   level (SEVERITY_COLORS A) = 1 \<and> level (SEVERITY_COLORS B) = 2"
proof -
  have m1: "machineSeverity m = Inr (spec_classify s)"
    if "js_or (m_statusName m) (m_status m) = JStr s" "s \<noteq> []"
  proof -
    have "js_or (js_or (m_statusName m) (m_status m)) (JStr ''normal'') = JStr s"
      using that by (simp add: js_or_truthy)
    then show ?thesis
      unfolding machineSeverity_def machineStatus_def by (rule severity_of_label)
  qed
  have b1: "bearingSeverity b = Inr (spec_classify s)"
    if "js_or (b_statusName b) (b_status b) = JStr s" "s \<noteq> []"
  proof -
    have "js_or (js_or (b_statusName b) (b_status b)) (JStr ''satisfactory'') = JStr s"
      using that by (simp add: js_or_truthy)
    then show ?thesis
      unfolding bearingSeverity_def bearingStatus_def by (rule severity_of_label)
  qed
  have m0: "machineStatus m = Inr ''normal'' \<and> machineSeverity m = Inr A"
    if "\<not> truthy (m_statusName m)" "\<not> truthy (m_status m)"
  proof -
    have l: "js_or (js_or (m_statusName m) (m_status m)) (JStr ''normal'') = JStr ''normal''"
      using that by (simp add: js_or_falsy)
    have "machineSeverity m = Inr (spec_classify ''normal'')"
      unfolding machineSeverity_def machineStatus_def using l by (rule severity_of_label)
    moreover have "machineStatus m = Inr ''normal''"
      unfolding machineStatus_def l by code_simp
    ultimately show ?thesis by (simp add: spec_classify_satisfactory)
  qed
  have b0: "bearingStatus b = Inr ''satisfactory'' \<and> bearingSeverity b = Inr B"
    if "\<not> truthy (b_statusName b)" "\<not> truthy (b_status b)"
  proof -
    have l: "js_or (js_or (b_statusName b) (b_status b)) (JStr ''satisfactory'') = JStr ''satisfactory''"
      using that by (simp add: js_or_falsy)
    have "bearingSeverity b = Inr (spec_classify ''satisfactory'')"
      unfolding bearingSeverity_def bearingStatus_def using l by (rule severity_of_label)
    moreover have "bearingStatus b = Inr ''satisfactory''"
      unfolding bearingStatus_def l by code_simp
    ultimately show ?thesis by (simp add: spec_classify_satisfactory)
  qed
  show ?thesis
    using m1 m0 b1 b0 bearingRow_status_cell [of b env margin bIdx y r]
    by (simp add: spec_classify_def)
qed

theorem severity_defaults_witness:
  "js_or (b_statusName bearing_alert) (b_status bearing_alert) = JStr ''alert'' \<and> ''alert'' \<noteq> [] \<and>
   bearingSeverity bearing_alert = Inr C \<and>
   js_or (m_statusName machine_alert) (m_status machine_alert) = JStr ''alert'' \<and>
   machineSeverity machine_alert = Inr C \<and>
   \<not> truthy (b_statusName bearing_no_status) \<and> \<not> truthy (b_status bearing_no_status) \<and>
   bearingSeverity bearing_no_status = Inr B \<and>
   \<not> truthy (m_statusName machine_id_only) \<and> \<not> truthy (m_status machine_id_only) \<and>
   machineSeverity machine_id_only = Inr A \<and>
   \<not> spelling_of ''normal'' ''ok'' \<and> \<not> spelling_of ''satisfactory'' ''ok'' \<and>
   \<not> spelling_of ''alert'' ''ok'' \<and> \<not> spelling_of ''unacceptable'' ''ok'' \<and>
   \<not> spelling_of ''unsatisfactory'' ''ok'' \<and> spec_classify ''ok'' = A \<and>
   usable_bearing bearing_no_status \<and>
   Text ''satisfactory'' (12 + 60 + 2) (97 + 5) NoOpt
     \<in> set (row_of (bearingRow sample_env 12 0 bearing_no_status (97, 0)))"
proof -
  have h: "js_or (b_statusName bearing_alert) (b_status bearing_alert) = JStr ''alert''"
    "js_or (m_statusName machine_alert) (m_status machine_alert) = JStr ''alert''"
    "\<not> truthy (b_statusName bearing_no_status)" "\<not> truthy (b_status bearing_no_status)"
    "\<not> truthy (m_statusName machine_id_only)" "\<not> truthy (m_status machine_id_only)"
    "usable_bearing bearing_no_status"
    by (simp_all add: bearing_alert_def bearing_no_status_def machine_id_only_def machine_alert_def
        no_machine_fields_def js_or_def usable_bearing_def)
  have o: "\<not> spelling_of ''normal'' ''ok''" "\<not> spelling_of ''satisfactory'' ''ok''"
    "\<not> spelling_of ''alert'' ''ok''" "\<not> spelling_of ''unacceptable'' ''ok''"
    "\<not> spelling_of ''unsatisfactory'' ''ok''"
    by code_simp+
  have c: "spec_classify ''alert'' = C" by code_simp
  note t = severity_defaults [of machine_id_only "''alert''" bearing_no_status sample_env 12 0 97 0]
  have s: "bearingStatus bearing_no_status = Inr ''satisfactory''"
    and b: "bearingSeverity bearing_no_status = Inr B"
    and m: "machineSeverity machine_id_only = Inr A"
    using t h by blast+
  have "Text (text_of (bearingStatus bearing_no_status)) (12 + 60 + 2) (97 + 5) NoOpt
      \<in> set (row_of (bearingRow sample_env 12 0 bearing_no_status (97, 0)))"
    using t h by blast
  then have x: "Text ''satisfactory'' (12 + 60 + 2) (97 + 5) NoOpt
      \<in> set (row_of (bearingRow sample_env 12 0 bearing_no_status (97, 0)))"
    by (simp add: s text_of_def)
  have a: "bearingSeverity bearing_alert = Inr C" "machineSeverity machine_alert = Inr C"
    using severity_defaults [of machine_alert "''alert''" bearing_alert sample_env 12 0 97 0] h c
    by simp_all
  have k: "spec_classify ''ok'' = A"
    using severity_defaults [of machine_id_only "''ok''" bearing_no_status sample_env 12 0 97 0] o
    by blast
  show ?thesis
    using h s b m x a o k by simp
qed

text \<open>
  A bearing without a status label is classified B, level 2, and its table row shows
  "satisfactory": not level 1.
\<close>

theorem bearing_default_counterexample:
  "bearingSeverity bearing_no_status = Inr B \<and> level (SEVERITY_COLORS B) = 2 \<and>
   texts (row_of (bearingRow sample_env 12 0 bearing_no_status (97, 0)))
     = [''B1'', ''satisfactory'', ''2.50'', ''0.200'', ''30.0'']"
  by code_simp

section \<open>Missing and malformed input\<close>

text \<open>
  C10, as the code has it. For a machine record and bearings whose properties are each
  absent (or falsy) or a string, the bearing report generator raises no error and saves a
  complete document, page 1 and the gallery: every property read falls back to a default, so
  that a record with an id only shows "Unknown Machine", the id, "N/A" twice and "OFFLINE". A
  property that holds another truthy value is not replaced by a default: with a non-zero
  number as status (and no \<open>statusName\<close>) the body throws a TypeError, the generator reports
  the failure and saves no document.
\<close>

theorem missing_fields_default:
  "(usable_machine m \<and> list_all usable_bearing bearings \<and> (\<forall>b. brg = Some b \<longrightarrow> usable_bearing b) \<longrightarrow>
      generatePDFReport env logo (Some m) brg bearings single
        = Saved (text_of (reportFileName env (machineName_of m) single brg))
            (reportPages env logo m (bearingsToReport single brg bearings) single)) \<and>
   (i \<noteq> [] \<longrightarrow>
      usable_machine (no_machine_fields\<lparr>m_machineId := JStr i\<rparr>) \<and>
      details (no_machine_fields\<lparr>m_machineId := JStr i\<rparr>)
        = [(''Machine Name'', JStr ''Unknown Machine''), (''Machine ID'', JStr i),
           (''Customer ID'', JStr ''N/A''), (''Area ID'', JStr ''N/A''),
           (''Type'', JStr ''OFFLINE''), (''Standard'', JStr ''ISO 10816-3'')] \<and>
      machineStatus (no_machine_fields\<lparr>m_machineId := JStr i\<rparr>) = Inr ''normal'') \<and>
   bearingsToReport False None [] = [] \<and>
   (\<not> truthy (m_statusName m) \<and> m_status m = JNum (Fin x) \<and> x \<noteq> 0 \<longrightarrow>
      generatePDFReport env logo (Some m) brg bearings single = Failed TypeError)"
proof (intro conjI impI)
  assume a: "usable_machine m \<and> list_all usable_bearing bearings
    \<and> (\<forall>b. brg = Some b \<longrightarrow> usable_bearing b)"
  then have "\<forall>b \<in> set bearings. usable_bearing b" by (simp add: list_all_iff)
  then show "generatePDFReport env logo (Some m) brg bearings single
        = Saved (text_of (reportFileName env (machineName_of m) single brg))
            (reportPages env logo m (bearingsToReport single brg bearings) single)"
    using a by (intro generatePDFReport_saved) auto
next
  assume "i \<noteq> []"
  then show "usable_machine (no_machine_fields\<lparr>m_machineId := JStr i\<rparr>)"
    "details (no_machine_fields\<lparr>m_machineId := JStr i\<rparr>)
        = [(''Machine Name'', JStr ''Unknown Machine''), (''Machine ID'', JStr i),
           (''Customer ID'', JStr ''N/A''), (''Area ID'', JStr ''N/A''),
           (''Type'', JStr ''OFFLINE''), (''Standard'', JStr ''ISO 10816-3'')]"
    "machineStatus (no_machine_fields\<lparr>m_machineId := JStr i\<rparr>) = Inr ''normal''"
    by (simp_all add: usable_machine_def no_machine_fields_def details_def machineName_of_def
        machineStatus_def js_or_def toLowerCase_char_def is_upper_def)
next
  show "bearingsToReport False None [] = []"
    by (simp add: bearingsToReport_def)
next
  assume "\<not> truthy (m_statusName m) \<and> m_status m = JNum (Fin x) \<and> x \<noteq> 0"
  then show "generatePDFReport env logo (Some m) brg bearings single = Failed TypeError"
    using machineStatus_numeric by blast
qed

text \<open>
  The record with the id "M1" only, over two bearings: a document is saved under the name of
  the unknown machine.
\<close>

theorem missing_fields_default_witness:
  "usable_machine machine_id_only \<and> list_all usable_bearing [bearing_no_status, bearing_alert] \<and>
   savedName (generatePDFReport sample_env None (Some machine_id_only) None
                [bearing_no_status, bearing_alert] False)
     = Some ''Report_Unknown_Machine_all_bearings_2024-06-01.pdf'' \<and>
   ''M1'' \<noteq> [] \<and>
   snd (details machine_id_only ! 2) = JStr ''N/A'' \<and>
   \<not> truthy (m_statusName machine_numeric_status) \<and>
   m_status machine_numeric_status = JNum (Fin 5) \<and> (5::real) \<noteq> 0 \<and>
   savedName (generatePDFReport sample_env None (Some machine_numeric_status) None [] False) = None"
proof -
  have h: "usable_machine machine_id_only" "list_all usable_bearing [bearing_no_status, bearing_alert]"
    by (simp_all add: usable_machine_def usable_bearing_def machine_id_only_def no_machine_fields_def
        bearing_no_status_def bearing_alert_def)
  have n: "\<not> truthy (m_statusName machine_numeric_status)"
    "m_status machine_numeric_status = JNum (Fin 5)"
    by (simp_all add: machine_numeric_status_def no_machine_fields_def)
  have f: "text_of (reportFileName sample_env (machineName_of machine_id_only) False None)
      = ''Report_Unknown_Machine_all_bearings_2024-06-01.pdf''"
    by code_simp
  have id: "machine_id_only = no_machine_fields\<lparr>m_machineId := JStr ''M1''\<rparr>"
    by (simp add: machine_id_only_def)
  note t1 = missing_fields_default [of machine_id_only "[bearing_no_status, bearing_alert]" None
      sample_env None False "''M1''" 5]
  note t2 = missing_fields_default [of machine_numeric_status "[]" None sample_env None False "''M1''" 5]
  have "generatePDFReport sample_env None (Some machine_id_only) None
                [bearing_no_status, bearing_alert] False
      = Saved ''Report_Unknown_Machine_all_bearings_2024-06-01.pdf''
          (reportPages sample_env None machine_id_only
             (bearingsToReport False None [bearing_no_status, bearing_alert]) False)"
    using t1 h f by simp
  moreover have "snd (details machine_id_only ! 2) = JStr ''N/A''"
    using t1 unfolding id by simp
  moreover have "generatePDFReport sample_env None (Some machine_numeric_status) None [] False
      = Failed TypeError"
    using t2 n by simp
  ultimately show ?thesis
    using h n by (simp add: savedName_def)
qed

text \<open>
  A record with the id "M1" and the number 5 as status: the generator fails with a
  TypeError and saves nothing.
\<close>

theorem numeric_status_counterexample:
  "generatePDFReport sample_env None (Some machine_numeric_status) None [] False = Failed TypeError \<and>
   savedName (generatePDFReport sample_env None (Some machine_numeric_status) None [] False) = None"
  by code_simp

end
